theory Spec2Isabelle
  imports Main
begin

section \<open>Data model\<close>

text \<open>
  The OAuth2 controller (\<^verbatim>\<open>oauth2.controller\<close>) works on five Mongoose collections.
  Every document carries its \<^verbatim>\<open>_id\<close> (here a natural number); references between
  documents (\<^verbatim>\<open>clientId\<close>, \<^verbatim>\<open>userId\<close>, \<^verbatim>\<open>accessTokenId\<close>) hold the \<^verbatim>\<open>_id\<close> of
  the document they point to. Dates are milliseconds, as \<^verbatim>\<open>Date.getTime()\<close> gives them.
\<close>

type_synonym objectId = nat
type_synonym date = nat

datatype grantType =
  GrantCode | GrantToken | GrantPassword | GrantClientCredentials | GrantRefreshToken

record client =
  c_oid :: objectId
  c_id :: string
  c_secret :: string
  c_redirectUris :: "string list"
  c_scopes :: "string list"

record user =
  u_oid :: objectId
  u_email :: string
  u_name :: string
  u_password :: string

record authCode =
  ac_oid :: objectId
  ac_value :: string
  ac_clientId :: objectId
  ac_userId :: objectId
  ac_redirectUri :: string
  ac_scopes :: "string list"
  ac_expireAt :: date

record accessToken =
  at_oid :: objectId
  at_value :: string
  at_clientId :: objectId
  at_userId :: "objectId option"
  at_scopes :: "string list"
  at_grantType :: grantType
  at_expireAt :: date

record refreshToken =
  rt_oid :: objectId
  rt_value :: string
  rt_accessTokenId :: objectId
  rt_expireAt :: date

text \<open>The database: each collection in insertion order.\<close>

record store =
  clients :: "client list"
  users :: "user list"
  authCodes :: "authCode list"
  accessTokens :: "accessToken list"
  refreshTokens :: "refreshToken list"

text \<open>
  What one request draws from outside the store: the strings of the value generators
  (\<^verbatim>\<open>accessTokenValueGenerator()\<close>, \<^verbatim>\<open>refreshTokenValueGenerator()\<close>) and the \<^verbatim>\<open>_id\<close>s that
  \<^verbatim>\<open>new accessTokenModel(...)\<close> and \<^verbatim>\<open>new refreshTokenModel(...)\<close> give the new documents.
\<close>

record generated =
  g_accessTokenValue :: string
  g_accessTokenId :: objectId
  g_refreshTokenValue :: string
  g_refreshTokenId :: objectId

datatype error =
  StoreError
  | ScopesError

text \<open>
  How an exchange handler ends. \<open>Issued a r e\<close> is \<^verbatim>\<open>done(null, a, r, {expires_in: e})\<close>,
  \<open>Rejected\<close> is \<^verbatim>\<open>done(null, false)\<close> (the framework turns it into \<^verbatim>\<open>invalid_grant\<close>),
  \<open>Failed e\<close> is \<^verbatim>\<open>done(err)\<close>, and \<open>Uncaught\<close> is a \<^verbatim>\<open>TypeError\<close> raised outside every
  \<^verbatim>\<open>try\<close> block: the handler's promise rejects and \<^verbatim>\<open>done\<close> is never called.
\<close>

datatype outcome =
  Issued string "string option" date
  | Rejected
  | Failed error
  | Uncaught

section \<open>Configuration\<close>

text \<open>\<^verbatim>\<open>config.ts\<close>: expiration times in seconds.\<close>

definition AUTH_CODE_EXPIRATION_TIME :: nat where
  "AUTH_CODE_EXPIRATION_TIME = 120"

definition ACCESS_TOKEN_EXPIRATION_TIME :: nat where
  "ACCESS_TOKEN_EXPIRATION_TIME = 180"

definition REFRESH_TOKEN_EXPIRATION_TIME :: nat where
  "REFRESH_TOKEN_EXPIRATION_TIME = 180"

section \<open>The credential store\<close>

text \<open>
  Modelled from the spec: the Mongoose models (\<^verbatim>\<open>client.model\<close>, \<^verbatim>\<open>user.model\<close>,
  \<^verbatim>\<open>authCode.model\<close>, \<^verbatim>\<open>accessToken.model\<close>, \<^verbatim>\<open>refreshToken.model\<close>) are not among the
  sources. The spec gives the store create, find-by-value, find-by-composite-key and
  delete, a uniqueness constraint on every credential value, and time-to-live expiry
  enforced lazily at lookup: a document whose expiry time has passed is not found.
  \<^verbatim>\<open>findOne\<close> returns the first document that matches.
\<close>

definition findOne_client :: "store \<Rightarrow> string \<Rightarrow> client option" where
  "findOne_client s i = find (\<lambda>c. c_id c = i) (clients s)"

definition findOne_user :: "store \<Rightarrow> string \<Rightarrow> user option" where
  "findOne_user s email = find (\<lambda>u. u_email u = email) (users s)"

definition findOne_authCode :: "store \<Rightarrow> date \<Rightarrow> string \<Rightarrow> authCode option" where
  "findOne_authCode s now v =
     find (\<lambda>d. ac_value d = v \<and> now < ac_expireAt d) (authCodes s)"

definition findOne_accessToken :: "store \<Rightarrow> date \<Rightarrow> string \<Rightarrow> accessToken option" where
  "findOne_accessToken s now v =
     find (\<lambda>d. at_value d = v \<and> now < at_expireAt d) (accessTokens s)"

definition findOne_accessToken_of ::
  "store \<Rightarrow> date \<Rightarrow> objectId \<Rightarrow> objectId \<Rightarrow> accessToken option" where
  "findOne_accessToken_of s now cid uid =
     find (\<lambda>d. at_clientId d = cid \<and> at_userId d = Some uid \<and> now < at_expireAt d)
       (accessTokens s)"

definition findOne_refreshToken :: "store \<Rightarrow> date \<Rightarrow> string \<Rightarrow> refreshToken option" where
  "findOne_refreshToken s now v =
     find (\<lambda>d. rt_value d = v \<and> now < rt_expireAt d) (refreshTokens s)"

text \<open>
  Modelled from the spec: \<^verbatim>\<open>populate\<close> is the spec's join-like lookup. It replaces a
  reference by the document with that \<^verbatim>\<open>_id\<close>, or by \<^verbatim>\<open>null\<close> when there is none.
\<close>

definition populate_client :: "store \<Rightarrow> objectId \<Rightarrow> client option" where
  "populate_client s oid = find (\<lambda>c. c_oid c = oid) (clients s)"

definition populate_user :: "store \<Rightarrow> objectId \<Rightarrow> user option" where
  "populate_user s oid = find (\<lambda>u. u_oid u = oid) (users s)"

definition populate_accessToken :: "store \<Rightarrow> date \<Rightarrow> objectId \<Rightarrow> accessToken option" where
  "populate_accessToken s now oid =
     find (\<lambda>d. at_oid d = oid \<and> now < at_expireAt d) (accessTokens s)"

text \<open>
  Modelled from the spec: \<^verbatim>\<open>save\<close> is the store's create. It fails, and the handler's
  \<^verbatim>\<open>catch\<close> receives the error, when the new document would break the uniqueness of
  \<^verbatim>\<open>value\<close> or of \<^verbatim>\<open>_id\<close> in its collection.
\<close>

definition save_accessToken :: "store \<Rightarrow> accessToken \<Rightarrow> error + store" where
  "save_accessToken s d =
     (if at_value d \<in> set (map at_value (accessTokens s))
         \<or> at_oid d \<in> set (map at_oid (accessTokens s))
      then Inl StoreError
      else Inr (s\<lparr>accessTokens := accessTokens s @ [d]\<rparr>))"

definition save_refreshToken :: "store \<Rightarrow> refreshToken \<Rightarrow> error + store" where
  "save_refreshToken s d =
     (if rt_value d \<in> set (map rt_value (refreshTokens s))
         \<or> rt_oid d \<in> set (map rt_oid (refreshTokens s))
      then Inl StoreError
      else Inr (s\<lparr>refreshTokens := refreshTokens s @ [d]\<rparr>))"

text \<open>
  Modelled from the spec: \<^verbatim>\<open>doc.remove()\<close> deletes the document with the \<^verbatim>\<open>_id\<close> of
  \<open>d\<close>. The spec asks the store for compare-and-delete (a delete that observes
  not-found when the row is already gone); Mongoose's own \<^verbatim>\<open>remove\<close> deletes by
  \<^verbatim>\<open>_id\<close> and resolves whether or not a row was there. The parameter \<open>cad\<close> says which
  of the two the store gives; with \<open>cad\<close> a delete of a missing row raises.
\<close>

definition remove_authCode :: "bool \<Rightarrow> store \<Rightarrow> authCode \<Rightarrow> error + store" where
  "remove_authCode cad s d =
     (if cad \<and> ac_oid d \<notin> set (map ac_oid (authCodes s))
      then Inl StoreError
      else Inr (s\<lparr>authCodes := filter (\<lambda>x. ac_oid x \<noteq> ac_oid d) (authCodes s)\<rparr>))"

definition remove_accessToken :: "bool \<Rightarrow> store \<Rightarrow> accessToken \<Rightarrow> error + store" where
  "remove_accessToken cad s d =
     (if cad \<and> at_oid d \<notin> set (map at_oid (accessTokens s))
      then Inl StoreError
      else Inr (s\<lparr>accessTokens := filter (\<lambda>x. at_oid x \<noteq> at_oid d) (accessTokens s)\<rparr>))"

definition remove_refreshToken :: "bool \<Rightarrow> store \<Rightarrow> refreshToken \<Rightarrow> error + store" where
  "remove_refreshToken cad s d =
     (if cad \<and> rt_oid d \<notin> set (map rt_oid (refreshTokens s))
      then Inl StoreError
      else Inr (s\<lparr>refreshTokens := filter (\<lambda>x. rt_oid x \<noteq> rt_oid d) (refreshTokens s)\<rparr>))"

text \<open>
  Modelled from the spec: the schemas, which set \<^verbatim>\<open>expireAt\<close>, are not among the
  sources. A new document expires its time-to-live after its creation.
\<close>

definition new_accessToken ::
  "date \<Rightarrow> generated \<Rightarrow> objectId \<Rightarrow> objectId option \<Rightarrow> string list \<Rightarrow> grantType \<Rightarrow> accessToken" where
  "new_accessToken now g cid uid sc gt =
     \<lparr>at_oid = g_accessTokenId g, at_value = g_accessTokenValue g, at_clientId = cid,
      at_userId = uid, at_scopes = sc, at_grantType = gt,
      at_expireAt = now + ACCESS_TOKEN_EXPIRATION_TIME * 1000\<rparr>"

definition new_refreshToken :: "date \<Rightarrow> generated \<Rightarrow> objectId \<Rightarrow> refreshToken" where
  "new_refreshToken now g aid =
     \<lparr>rt_oid = g_refreshTokenId g, rt_value = g_refreshTokenValue g, rt_accessTokenId = aid,
      rt_expireAt = now + REFRESH_TOKEN_EXPIRATION_TIME * 1000\<rparr>"

section \<open>Exchange handlers\<close>

text \<open>
  The tail shared by the code, password and refresh-token handlers: save the refresh
  token paired to the access token that was just saved, and call \<^verbatim>\<open>done\<close> with both
  values.
\<close>

definition issue_refreshToken :: "store \<Rightarrow> date \<Rightarrow> generated \<Rightarrow> accessToken \<Rightarrow> outcome \<times> store" where
  "issue_refreshToken s now g accessToken =
     (case save_refreshToken s (new_refreshToken now g (at_oid accessToken)) of
        Inl err \<Rightarrow> (Failed err, s)
      | Inr s' \<Rightarrow>
          (Issued (at_value accessToken) (Some (g_refreshTokenValue g)) (at_expireAt accessToken),
           s'))"

text \<open>
  \<^verbatim>\<open>oauth2orize.exchange.code\<close>: the part after the check, from \<^verbatim>\<open>authCode.remove()\<close> on.
  \<open>c\<close> is the populated \<^verbatim>\<open>authCode.clientId\<close>, which Mongoose casts back to its \<^verbatim>\<open>_id\<close>.
\<close>

definition exchange_code_redeem ::
  "bool \<Rightarrow> store \<Rightarrow> date \<Rightarrow> generated \<Rightarrow> authCode \<Rightarrow> client \<Rightarrow> outcome \<times> store" where
  "exchange_code_redeem cad s now g authCode c =
     (case remove_authCode cad s authCode of
        Inl err \<Rightarrow> (Failed err, s)
      | Inr s1 \<Rightarrow>
          (let accessToken =
                 new_accessToken now g (c_oid c) (Some (ac_userId authCode))
                   (ac_scopes authCode) GrantCode
           in case save_accessToken s1 accessToken of
                Inl err \<Rightarrow> (Failed err, s1)
              | Inr s2 \<Rightarrow> issue_refreshToken s2 now g accessToken))"

text \<open>
  \<^verbatim>\<open>oauth2orize.exchange.code\<close>: \<^verbatim>\<open>findOne({ value: code }).populate('clientId')\<close>, then
  the three-part check. \<^verbatim>\<open>(<any>authCode.clientId).id\<close> on a reference that populated to
  \<^verbatim>\<open>null\<close> raises before the \<^verbatim>\<open>try\<close>.
\<close>

definition exchange_code ::
  "bool \<Rightarrow> store \<Rightarrow> date \<Rightarrow> generated \<Rightarrow> client \<Rightarrow> string \<Rightarrow> string \<Rightarrow> outcome \<times> store" where
  "exchange_code cad s now g client code redirectUri =
     (case findOne_authCode s now code of
        None \<Rightarrow> (Rejected, s)
      | Some authCode \<Rightarrow>
          (case populate_client s (ac_clientId authCode) of
             None \<Rightarrow> (Uncaught, s)
           | Some c \<Rightarrow>
               if c_id client = c_id c \<and> redirectUri = ac_redirectUri authCode
               then exchange_code_redeem cad s now g authCode c
               else (Rejected, s)))"

text \<open>
  \<^verbatim>\<open>oauth2orize.exchange.password\<close>. \<^verbatim>\<open>validatePasswordHash\<close> (\<^verbatim>\<open>utils/hashUtils\<close>) is
  not among the sources and is a parameter.
\<close>

definition exchange_password ::
  "(string \<Rightarrow> string \<Rightarrow> bool) \<Rightarrow> store \<Rightarrow> date \<Rightarrow> generated \<Rightarrow> client \<Rightarrow> string \<Rightarrow> string
     \<Rightarrow> string list \<Rightarrow> outcome \<times> store" where
  "exchange_password validatePasswordHash s now g client username password scope =
     (case findOne_client s (c_id client) of
        None \<Rightarrow> (Rejected, s)
      | Some clientDoc \<Rightarrow>
          if c_secret clientDoc = c_secret client
          then (case findOne_user s username of
                  None \<Rightarrow> (Rejected, s)
                | Some user \<Rightarrow>
                    if validatePasswordHash password (u_password user)
                    then (let accessToken =
                                new_accessToken now g (c_oid client) (Some (u_oid user))
                                  scope GrantPassword
                          in case save_accessToken s accessToken of
                               Inl err \<Rightarrow> (Failed err, s)
                             | Inr s1 \<Rightarrow> issue_refreshToken s1 now g accessToken)
                    else (Rejected, s))
          else (Rejected, s))"

text \<open>
  \<^verbatim>\<open>oauth2orize.exchange.clientCredentials\<close>: the first \<^verbatim>\<open>if\<close> wants a client with
  scopes and the right secret; the second one turns a client without scopes into an
  \<^verbatim>\<open>Error\<close>, whatever the secret; everything else is \<^verbatim>\<open>done(null, false)\<close>.
\<close>

definition exchange_clientCredentials ::
  "store \<Rightarrow> date \<Rightarrow> generated \<Rightarrow> client \<Rightarrow> string list \<Rightarrow> outcome \<times> store" where
  "exchange_clientCredentials s now g client scope =
     (case findOne_client s (c_id client) of
        None \<Rightarrow> (Rejected, s)
      | Some clientDoc \<Rightarrow>
          if length (c_scopes clientDoc) > 0 \<and> c_secret clientDoc = c_secret client
          then (let accessToken =
                      new_accessToken now g (c_oid client) None (c_scopes clientDoc)
                        GrantClientCredentials
                in case save_accessToken s accessToken of
                     Inl err \<Rightarrow> (Failed err, s)
                   | Inr s1 \<Rightarrow> (Issued (at_value accessToken) None (at_expireAt accessToken), s1))
          else if length (c_scopes clientDoc) = 0
          then (Failed ScopesError, s)
          else (Rejected, s))"

text \<open>
  \<^verbatim>\<open>oauth2orize.exchange.refreshToken\<close>: the part inside the \<^verbatim>\<open>try\<close>. \<open>old\<close> is the
  populated \<^verbatim>\<open>refreshTokenDoc.accessTokenId\<close> and \<open>c\<close> its populated \<^verbatim>\<open>clientId\<close>.
\<close>

definition exchange_refreshToken_rotate ::
  "bool \<Rightarrow> store \<Rightarrow> date \<Rightarrow> generated \<Rightarrow> refreshToken \<Rightarrow> accessToken \<Rightarrow> client
     \<Rightarrow> outcome \<times> store" where
  "exchange_refreshToken_rotate cad s now g refreshTokenDoc old c =
     (let accessToken =
            new_accessToken now g (c_oid c) (at_userId old) (at_scopes old) (at_grantType old)
      in case save_accessToken s accessToken of
           Inl err \<Rightarrow> (Failed err, s)
         | Inr s1 \<Rightarrow>
             (case remove_accessToken cad s1 old of
                Inl err \<Rightarrow> (Failed err, s1)
              | Inr s2 \<Rightarrow>
                  (case remove_refreshToken cad s2 refreshTokenDoc of
                     Inl err \<Rightarrow> (Failed err, s2)
                   | Inr s3 \<Rightarrow> issue_refreshToken s3 now g accessToken)))"

text \<open>
  \<^verbatim>\<open>oauth2orize.exchange.refreshToken\<close>: the lookup populates the access token and,
  below it, the client. The check reads \<^verbatim>\<open>.clientId\<close> of the first and \<^verbatim>\<open>.id\<close> of the
  second outside the \<^verbatim>\<open>try\<close>, so a reference that populated to \<^verbatim>\<open>null\<close> raises.
\<close>

definition exchange_refreshToken ::
  "bool \<Rightarrow> store \<Rightarrow> date \<Rightarrow> generated \<Rightarrow> client \<Rightarrow> string \<Rightarrow> string list \<Rightarrow> outcome \<times> store" where
  "exchange_refreshToken cad s now g client refreshToken scope =
     (case findOne_refreshToken s now refreshToken of
        None \<Rightarrow> (Rejected, s)
      | Some refreshTokenDoc \<Rightarrow>
          (case populate_accessToken s now (rt_accessTokenId refreshTokenDoc) of
             None \<Rightarrow> (Uncaught, s)
           | Some old \<Rightarrow>
               (case populate_client s (at_clientId old) of
                  None \<Rightarrow> (Uncaught, s)
                | Some c \<Rightarrow>
                    if c_id c = c_id client
                    then exchange_refreshToken_rotate cad s now g refreshTokenDoc old c
                    else (Rejected, s))))"

section \<open>Authorization, introspection and the session serializer\<close>

text \<open>
  Modelled from the spec: \<^verbatim>\<open>isScopeEquals\<close> (\<^verbatim>\<open>utils/isEqual\<close>) is not among the
  sources; the spec has it compare the two scope lists for equality as sets.
\<close>

definition isScopeEquals :: "string list \<Rightarrow> string list \<Rightarrow> bool" where
  "isScopeEquals a b = (set a = set b)"

text \<open>
  The second callback of \<^verbatim>\<open>server.authorization\<close>: \<^verbatim>\<open>done(null, true, ...)\<close> approves at
  once, \<^verbatim>\<open>done(null, false, ...)\<close> lets the user decide.
\<close>

definition authorization_immediate ::
  "store \<Rightarrow> date \<Rightarrow> client \<Rightarrow> user \<Rightarrow> string list \<Rightarrow> bool" where
  "authorization_immediate s now client user scope =
     (case findOne_accessToken_of s now (c_oid client) (u_oid user) of
        None \<Rightarrow> False
      | Some accessToken \<Rightarrow> isScopeEquals (at_scopes accessToken) scope)"

text \<open>\<^verbatim>\<open>Array.prototype.join(' ')\<close> on the scopes.\<close>

fun join_space :: "string list \<Rightarrow> string" where
  "join_space [] = []"
| "join_space [x] = x"
| "join_space (x # y # ys) = x @ '' '' @ join_space (y # ys)"

text \<open>
  The body that \<^verbatim>\<open>tokenIntrospectionEndpoint\<close> sends: \<open>Active clientId scope exp username\<close>
  or \<open>Inactive\<close>, which is \<^verbatim>\<open>{ active: false }\<close> and nothing else.
\<close>

datatype introspection =
  Active string string date "string option"
  | Inactive

text \<open>\<open>Sent b\<close> is \<^verbatim>\<open>res.status(200).send(b)\<close>; \<open>Raised\<close> is a \<^verbatim>\<open>TypeError\<close> and no response.\<close>

datatype reply =
  Sent introspection
  | Raised

text \<open>
  \<^verbatim>\<open>tokenIntrospectionEndpoint\<close>. \<open>token\<close> is \<^verbatim>\<open>req.body.token\<close> (\<open>None\<close> when the body
  has none; the empty string is falsy as well) and \<open>requester\<close> is \<^verbatim>\<open>req.user\<close>, the
  authenticated client. \<^verbatim>\<open>typeof null === 'object'\<close>, so a client reference that
  populated to \<^verbatim>\<open>null\<close> passes the second conjunct and \<^verbatim>\<open>.id\<close> raises on it. The
  \<^verbatim>\<open>username\<close> is there when the user reference populated.
\<close>

definition tokenIntrospectionEndpoint ::
  "store \<Rightarrow> date \<Rightarrow> client \<Rightarrow> string option \<Rightarrow> reply" where
  "tokenIntrospectionEndpoint s now requester token =
     (case token of
        None \<Rightarrow> Sent Inactive
      | Some t \<Rightarrow>
          if t = [] then Sent Inactive
          else (case findOne_accessToken s now t of
                  None \<Rightarrow> Sent Inactive
                | Some accessToken \<Rightarrow>
                    (case populate_client s (at_clientId accessToken) of
                       None \<Rightarrow> Raised
                     | Some c \<Rightarrow>
                         if c_id c = c_id requester
                         then Sent (Active (c_id c) (join_space (at_scopes accessToken))
                                 (at_expireAt accessToken)
                                 (case at_userId accessToken of
                                    None \<Rightarrow> None
                                  | Some uid \<Rightarrow> map_option u_name (populate_user s uid)))
                         else Sent Inactive)))"

text \<open>\<^verbatim>\<open>server.serializeClient\<close>: \<^verbatim>\<open>callback(null, client.id)\<close>.\<close>

definition serializeClient :: "client \<Rightarrow> error + string" where
  "serializeClient client = Inr (c_id client)"

text \<open>
  \<^verbatim>\<open>server.deserializeClient\<close>: \<^verbatim>\<open>callback(null, await clientModel.findOne({ id }))\<close>. The
  first argument of the callback, the error, is always \<^verbatim>\<open>null\<close>; the second is the
  client or \<^verbatim>\<open>null\<close>.
\<close>

definition deserializeClient :: "store \<Rightarrow> string \<Rightarrow> error + client option" where
  "deserializeClient s i = Inr (findOne_client s i)"

text \<open>How loading the client of a stored transaction can fail.\<close>

datatype transactionError =
  DeserializeError error
  | ClientNotFound

text \<open>
  Modelled from the spec: the reader of the callback, the OAuth2 framework's loader of
  the transaction kept in the session, is not among the sources. It calls the
  registered \<^verbatim>\<open>deserializeClient\<close> with the client id of the transaction; an error
  passed to the callback fails the transaction, and so does an absent client (the
  spec: failure to find the client on deserialize is a hard error for that
  transaction). \<^verbatim>\<open>callback(null, null)\<close> is how the deserializer tells the framework
  that the client is gone, as \<^verbatim>\<open>done(null, false)\<close> is how an exchange handler tells it
  to reject.
\<close>

definition loadTransactionClient :: "store \<Rightarrow> string \<Rightarrow> transactionError + client" where
  "loadTransactionClient s i =
     (case deserializeClient s i of
        Inl err \<Rightarrow> Inl (DeserializeError err)
      | Inr None \<Rightarrow> Inl ClientNotFound
      | Inr (Some client) \<Rightarrow> Inr client)"

section \<open>Two requests that overlap\<close>

text \<open>
  Every \<^verbatim>\<open>await\<close> of a handler hands control to the other requests in flight. The
  schedule below is the one in which two requests present the same authorization code
  and both \<^verbatim>\<open>findOne\<close> lookups are answered before either request goes on: both
  requests hold the same document and pass the same check, then the first one runs
  from its \<^verbatim>\<open>remove\<close> to its \<^verbatim>\<open>done\<close>, then the second one does. The result is the
  outcome of the first request, the outcome of the second, and the store they leave.
\<close>

definition exchange_code_overlapped ::
  "bool \<Rightarrow> store \<Rightarrow> date \<Rightarrow> generated \<Rightarrow> generated \<Rightarrow> client \<Rightarrow> string \<Rightarrow> string
     \<Rightarrow> outcome \<times> outcome \<times> store" where
  "exchange_code_overlapped cad s now g1 g2 client code redirectUri =
     (case findOne_authCode s now code of
        None \<Rightarrow> (Rejected, Rejected, s)
      | Some authCode \<Rightarrow>
          (case populate_client s (ac_clientId authCode) of
             None \<Rightarrow> (Uncaught, Uncaught, s)
           | Some c \<Rightarrow>
               if c_id client = c_id c \<and> redirectUri = ac_redirectUri authCode
               then (case exchange_code_redeem cad s now g1 authCode c of
                       (o1, s1) \<Rightarrow>
                         (case exchange_code_redeem cad s1 now g2 authCode c of
                            (o2, s2) \<Rightarrow> (o1, o2, s2)))
               else (Rejected, Rejected, s)))"

text \<open>The same schedule for two requests that present the same refresh token.\<close>

definition exchange_refreshToken_overlapped ::
  "bool \<Rightarrow> store \<Rightarrow> date \<Rightarrow> generated \<Rightarrow> generated \<Rightarrow> client \<Rightarrow> string
     \<Rightarrow> outcome \<times> outcome \<times> store" where
  "exchange_refreshToken_overlapped cad s now g1 g2 client refreshToken =
     (case findOne_refreshToken s now refreshToken of
        None \<Rightarrow> (Rejected, Rejected, s)
      | Some refreshTokenDoc \<Rightarrow>
          (case populate_accessToken s now (rt_accessTokenId refreshTokenDoc) of
             None \<Rightarrow> (Uncaught, Uncaught, s)
           | Some old \<Rightarrow>
               (case populate_client s (at_clientId old) of
                  None \<Rightarrow> (Uncaught, Uncaught, s)
                | Some c \<Rightarrow>
                    if c_id c = c_id client
                    then (case exchange_refreshToken_rotate cad s now g1 refreshTokenDoc old c of
                            (o1, s1) \<Rightarrow>
                              (case exchange_refreshToken_rotate cad s1 now g2 refreshTokenDoc old c of
                                 (o2, s2) \<Rightarrow> (o1, o2, s2)))
                    else (Rejected, Rejected, s))))"

section \<open>Fresh values\<close>

text \<open>
  The values and \<^verbatim>\<open>_id\<close>s that a request generated are new to the store: no stored
  access token or refresh token has them, so the two \<^verbatim>\<open>save\<close>s of the request pass the
  uniqueness check.
\<close>

definition fresh :: "store \<Rightarrow> generated \<Rightarrow> bool" where
  "fresh s g =
     (g_accessTokenValue g \<notin> set (map at_value (accessTokens s)) \<and>
      g_accessTokenId g \<notin> set (map at_oid (accessTokens s)) \<and>
      g_refreshTokenValue g \<notin> set (map rt_value (refreshTokens s)) \<and>
      g_refreshTokenId g \<notin> set (map rt_oid (refreshTokens s)))"

section \<open>A small database for the examples\<close>

definition app1 :: client where
  "app1 = \<lparr>c_oid = 1, c_id = ''app1'', c_secret = ''s1'',
           c_redirectUris = [''https://app/cb''], c_scopes = [''read'']\<rparr>"

definition app2 :: client where
  "app2 = \<lparr>c_oid = 2, c_id = ''app2'', c_secret = ''s2'',
           c_redirectUris = [''https://two/cb''], c_scopes = []\<rparr>"

definition alice :: user where
  "alice = \<lparr>u_oid = 1, u_email = ''alice@example.org'', u_name = ''alice'',
            u_password = ''hash''\<rparr>"

definition code1 :: authCode where
  "code1 = \<lparr>ac_oid = 1, ac_value = ''abc'', ac_clientId = 1, ac_userId = 1,
            ac_redirectUri = ''https://app/cb'', ac_scopes = [''read''],
            ac_expireAt = 120000\<rparr>"

definition token1 :: accessToken where
  "token1 = \<lparr>at_oid = 1, at_value = ''tok1'', at_clientId = 1, at_userId = Some 1,
             at_scopes = [''read''], at_grantType = GrantCode, at_expireAt = 180000\<rparr>"

definition token2 :: accessToken where
  "token2 = \<lparr>at_oid = 2, at_value = ''tok2'', at_clientId = 1, at_userId = Some 1,
             at_scopes = [''write''], at_grantType = GrantPassword, at_expireAt = 180000\<rparr>"

definition refresh1 :: refreshToken where
  "refresh1 = \<lparr>rt_oid = 1, rt_value = ''ref1'', rt_accessTokenId = 1, rt_expireAt = 180000\<rparr>"

definition db :: store where
  "db = \<lparr>clients = [app1, app2], users = [alice], authCodes = [code1],
         accessTokens = [token1, token2], refreshTokens = [refresh1]\<rparr>"

text \<open>
  The database after the client \<^verbatim>\<open>app1\<close> was removed: the code, the access tokens and
  the refresh token that were issued to it are still stored.
\<close>

definition orphaned :: store where
  "orphaned = db\<lparr>clients := [app2]\<rparr>"

text \<open>
  The database with the refresh token expiring a millisecond after its access token:
  the handlers save the access token first.
\<close>

definition staggered :: store where
  "staggered = db\<lparr>refreshTokens := [refresh1\<lparr>rt_expireAt := 180001\<rparr>]\<rparr>"

definition gen1 :: generated where
  "gen1 = \<lparr>g_accessTokenValue = ''tok3'', g_accessTokenId = 3,
            g_refreshTokenValue = ''ref3'', g_refreshTokenId = 3\<rparr>"

definition gen2 :: generated where
  "gen2 = \<lparr>g_accessTokenValue = ''tok4'', g_accessTokenId = 4,
            g_refreshTokenValue = ''ref4'', g_refreshTokenId = 4\<rparr>"

text \<open>A password check for the examples: the stored hash is the password itself.\<close>

definition plain_check :: "string \<Rightarrow> string \<Rightarrow> bool" where
  "plain_check password hash = (password = hash)"

section \<open>Evaluation and basic facts\<close>

lemmas example_defs = app1_def app2_def alice_def code1_def token1_def token2_def refresh1_def
  db_def gen1_def gen2_def plain_check_def

lemmas store_defs = findOne_client_def findOne_user_def findOne_authCode_def
  findOne_accessToken_def findOne_accessToken_of_def findOne_refreshToken_def
  populate_client_def populate_user_def populate_accessToken_def
  save_accessToken_def save_refreshToken_def
  remove_authCode_def remove_accessToken_def remove_refreshToken_def
  new_accessToken_def new_refreshToken_def
  ACCESS_TOKEN_EXPIRATION_TIME_def REFRESH_TOKEN_EXPIRATION_TIME_def

lemma issue_refreshToken_not_Rejected:
  "fst (issue_refreshToken s now g a) \<noteq> Rejected"
  by (simp add: issue_refreshToken_def split: sum.splits)

lemma exchange_code_redeem_not_Rejected:
  "fst (exchange_code_redeem cad s now g authCode c) \<noteq> Rejected"
  by (simp add: exchange_code_redeem_def Let_def issue_refreshToken_not_Rejected split: sum.splits)

lemma exchange_refreshToken_rotate_not_Rejected:
  "fst (exchange_refreshToken_rotate cad s now g d old c) \<noteq> Rejected"
  by (simp add: exchange_refreshToken_rotate_def Let_def issue_refreshToken_not_Rejected
      split: sum.splits)

section \<open>Rejection leaves the store unchanged\<close>

lemma exchange_code_Rejected:
  "fst (exchange_code cad s now g client code redirectUri) = Rejected \<Longrightarrow>
   snd (exchange_code cad s now g client code redirectUri) = s"
  using exchange_code_redeem_not_Rejected
  by (auto simp: exchange_code_def split: option.splits if_splits)

lemma exchange_password_Rejected:
  "fst (exchange_password v s now g client username password scope) = Rejected \<Longrightarrow>
   snd (exchange_password v s now g client username password scope) = s"
  using issue_refreshToken_not_Rejected
  by (auto simp: exchange_password_def Let_def split: option.splits if_splits sum.splits)

lemma exchange_clientCredentials_Rejected:
  "fst (exchange_clientCredentials s now g client scope) = Rejected \<Longrightarrow>
   snd (exchange_clientCredentials s now g client scope) = s"
  by (auto simp: exchange_clientCredentials_def Let_def
      split: option.splits if_splits sum.splits)

lemma exchange_refreshToken_Rejected:
  "fst (exchange_refreshToken cad s now g client refreshToken scope) = Rejected \<Longrightarrow>
   snd (exchange_refreshToken cad s now g client refreshToken scope) = s"
  using exchange_refreshToken_rotate_not_Rejected
  by (auto simp: exchange_refreshToken_def split: option.splits if_splits)

text \<open>
  Claim C9. Whenever one of the four exchange handlers (code, password, client
  credentials, refresh token) ends with \<^verbatim>\<open>done(null, false)\<close>, the store it leaves is the
  store it found: no authorization code, access token or refresh token was created or
  deleted.
\<close>

theorem rejected_leaves_store:
  "(fst (exchange_code cad s now g client code redirectUri) = Rejected \<longrightarrow>
      snd (exchange_code cad s now g client code redirectUri) = s) \<and>
   (fst (exchange_password v s now g client username password scope) = Rejected \<longrightarrow>
      snd (exchange_password v s now g client username password scope) = s) \<and>
   (fst (exchange_clientCredentials s now g client scope) = Rejected \<longrightarrow>
      snd (exchange_clientCredentials s now g client scope) = s) \<and>
   (fst (exchange_refreshToken cad s now g client refreshToken scope) = Rejected \<longrightarrow>
      snd (exchange_refreshToken cad s now g client refreshToken scope) = s)"
  by (simp add: exchange_code_Rejected exchange_password_Rejected
      exchange_clientCredentials_Rejected exchange_refreshToken_Rejected)

lemma ex_code_rejected:
  "fst (exchange_code True db 0 gen1 app1 ''abc'' ''https://evil/cb'') = Rejected"
  by (simp add: exchange_code_def store_defs example_defs)

lemma ex_password_rejected:
  "fst (exchange_password plain_check db 0 gen1 app1 ''alice@example.org'' ''guess'' [''read''])
     = Rejected"
  by (simp add: exchange_password_def store_defs example_defs)

lemma ex_clientCredentials_rejected:
  "fst (exchange_clientCredentials db 0 gen1 (app1\<lparr>c_secret := ''guess''\<rparr>) []) = Rejected"
  by (simp add: exchange_clientCredentials_def store_defs example_defs)

lemma ex_refreshToken_rejected:
  "fst (exchange_refreshToken True db 0 gen1 (app2\<lparr>c_scopes := [''read'']\<rparr>) ''ref1'' []) = Rejected"
  by (simp add: exchange_refreshToken_def store_defs example_defs)

theorem rejected_leaves_store_witness:
  "fst (exchange_code True db 0 gen1 app1 ''abc'' ''https://evil/cb'') = Rejected \<and>
   snd (exchange_code True db 0 gen1 app1 ''abc'' ''https://evil/cb'') = db \<and>
   fst (exchange_password plain_check db 0 gen1 app1 ''alice@example.org'' ''guess'' [''read''])
     = Rejected \<and>
   snd (exchange_password plain_check db 0 gen1 app1 ''alice@example.org'' ''guess'' [''read''])
     = db \<and>
   fst (exchange_clientCredentials db 0 gen1 (app1\<lparr>c_secret := ''guess''\<rparr>) []) = Rejected \<and>
   snd (exchange_clientCredentials db 0 gen1 (app1\<lparr>c_secret := ''guess''\<rparr>) []) = db \<and>
   fst (exchange_refreshToken True db 0 gen1 (app2\<lparr>c_scopes := [''read'']\<rparr>) ''ref1'' [])
     = Rejected \<and>
   snd (exchange_refreshToken True db 0 gen1 (app2\<lparr>c_scopes := [''read'']\<rparr>) ''ref1'' []) = db"
  using rejected_leaves_store [of True db 0 gen1 app1 "''abc''" "''https://evil/cb''"
      plain_check "''alice@example.org''" "''guess''" "[''read'']"]
    rejected_leaves_store [of True db 0 gen1 "app1\<lparr>c_secret := ''guess''\<rparr>" "''abc''" "''x''"
      plain_check "''a''" "''b''" "[]"]
    rejected_leaves_store [of True db 0 gen1 "app2\<lparr>c_scopes := [''read'']\<rparr>" "''abc''" "''x''"
      plain_check "''a''" "''b''" "[]" "''ref1''"]
    ex_code_rejected ex_password_rejected ex_clientCredentials_rejected ex_refreshToken_rejected
  by simp

section \<open>Client credentials\<close>

text \<open>
  Claim C5. A registered client whose configured scope list is empty gets, from the
  client-credentials exchange, the handler's own \<^verbatim>\<open>Error\<close> (\<^verbatim>\<open>done(err)\<close>), which is not
  the \<^verbatim>\<open>done(null, false)\<close> of a rejection; the store is left as it was.
\<close>

theorem clientCredentials_without_scopes:
  assumes "findOne_client s (c_id client) = Some clientDoc"
    and "c_scopes clientDoc = []"
  shows "exchange_clientCredentials s now g client scope = (Failed ScopesError, s) \<and>
         fst (exchange_clientCredentials s now g client scope) \<noteq> Rejected"
  using assms by (simp add: exchange_clientCredentials_def)

theorem clientCredentials_without_scopes_witness:
  "findOne_client db (c_id app2) = Some app2 \<and> c_scopes app2 = [] \<and>
   exchange_clientCredentials db 0 gen1 app2 [''read''] = (Failed ScopesError, db)"
proof -
  have found: "findOne_client db (c_id app2) = Some app2"
    by (simp add: findOne_client_def example_defs)
  have none: "c_scopes app2 = []"
    by (simp add: app2_def)
  from clientCredentials_without_scopes [OF found none, of 0 gen1 "[''read'']"] found none
  show ?thesis by simp
qed

text \<open>
  Claim C6. When the client-credentials exchange issues, it returns no refresh token
  and stores none; the one access token it adds has grant type \<^verbatim>\<open>client_credentials\<close>,
  no user, and the whole scope list of the registered client; the scope asked for in
  the request plays no part.
\<close>

theorem clientCredentials_issues_access_token_only:
  assumes "exchange_clientCredentials s now g client scope = (Issued a r e, s')"
  shows "r = None \<and>
         refreshTokens s' = refreshTokens s \<and>
         (\<exists>clientDoc t.
            findOne_client s (c_id client) = Some clientDoc \<and>
            accessTokens s' = accessTokens s @ [t] \<and>
            at_value t = a \<and>
            at_grantType t = GrantClientCredentials \<and>
            at_scopes t = c_scopes clientDoc \<and>
            at_userId t = None \<and>
            at_clientId t = c_oid client) \<and>
         exchange_clientCredentials s now g client scope2 = (Issued a r e, s')"
  using assms
  by (auto simp: exchange_clientCredentials_def Let_def save_accessToken_def new_accessToken_def
      split: option.splits if_splits sum.splits)

theorem clientCredentials_issues_access_token_only_witness:
  "exchange_clientCredentials db 0 gen1 app1 [''write''] =
     (Issued ''tok3'' None 180000,
      db\<lparr>accessTokens := accessTokens db @
           [\<lparr>at_oid = 3, at_value = ''tok3'', at_clientId = 1, at_userId = None,
             at_scopes = [''read''], at_grantType = GrantClientCredentials,
             at_expireAt = 180000\<rparr>]\<rparr>) \<and>
   refreshTokens (snd (exchange_clientCredentials db 0 gen1 app1 [''write''])) = [refresh1] \<and>
   exchange_clientCredentials db 0 gen1 app1 [] =
     exchange_clientCredentials db 0 gen1 app1 [''write'']"
proof -
  have run: "exchange_clientCredentials db 0 gen1 app1 [''write''] =
     (Issued ''tok3'' None 180000,
      db\<lparr>accessTokens := accessTokens db @
           [\<lparr>at_oid = 3, at_value = ''tok3'', at_clientId = 1, at_userId = None,
             at_scopes = [''read''], at_grantType = GrantClientCredentials,
             at_expireAt = 180000\<rparr>]\<rparr>)"
    by (simp add: exchange_clientCredentials_def store_defs example_defs)
  from clientCredentials_issues_access_token_only [OF run, of "[]"] run
  show ?thesis by (simp add: db_def)
qed

section \<open>The compound checks of the password and client-credentials exchanges\<close>

text \<open>
  Claim C4, as stated, fails: a registered client without scopes that presents a
  wrong secret to the client-credentials exchange is not rejected with
  \<^verbatim>\<open>done(null, false)\<close>; it gets the handler's \<^verbatim>\<open>Error\<close>.
\<close>

theorem clientCredentials_secret_counterexample:
  "findOne_client db (c_id (app2\<lparr>c_secret := ''guess''\<rparr>)) = Some app2 \<and>
   c_secret app2 \<noteq> c_secret (app2\<lparr>c_secret := ''guess''\<rparr>) \<and>
   exchange_clientCredentials db 0 gen1 (app2\<lparr>c_secret := ''guess''\<rparr>) [] \<noteq> (Rejected, db) \<and>
   exchange_clientCredentials db 0 gen1 (app2\<lparr>c_secret := ''guess''\<rparr>) []
     = (Failed ScopesError, db)"
  by (simp add: exchange_clientCredentials_def store_defs example_defs)

text \<open>
  Claim C4, amended. In the password exchange an unknown client, a wrong client secret,
  an unknown user and a wrong password all end in the same \<^verbatim>\<open>done(null, false)\<close> and
  leave the store alone. In the client-credentials exchange an unknown client, and a
  wrong secret of a client that has scopes, end in that same rejection; a registered
  client without scopes gets the \<^verbatim>\<open>Error\<close>, whether or not its secret matches.
\<close>

theorem compound_check_rejections:
  "((findOne_client s (c_id client) = None \<or>
     (\<exists>d. findOne_client s (c_id client) = Some d \<and> c_secret d \<noteq> c_secret client) \<or>
     findOne_user s username = None \<or>
     (\<exists>u. findOne_user s username = Some u \<and> \<not> v password (u_password u))) \<longrightarrow>
    exchange_password v s now g client username password scope = (Rejected, s)) \<and>
   ((findOne_client s (c_id client) = None \<or>
     (\<exists>d. findOne_client s (c_id client) = Some d \<and> c_scopes d \<noteq> [] \<and>
          c_secret d \<noteq> c_secret client)) \<longrightarrow>
    exchange_clientCredentials s now g client scope = (Rejected, s)) \<and>
   ((\<exists>d. findOne_client s (c_id client) = Some d \<and> c_scopes d = []) \<longrightarrow>
    exchange_clientCredentials s now g client scope = (Failed ScopesError, s))"
proof (intro conjI impI)
  assume "findOne_client s (c_id client) = None \<or>
     (\<exists>d. findOne_client s (c_id client) = Some d \<and> c_secret d \<noteq> c_secret client) \<or>
     findOne_user s username = None \<or>
     (\<exists>u. findOne_user s username = Some u \<and> \<not> v password (u_password u))"
  then show "exchange_password v s now g client username password scope = (Rejected, s)"
    by (auto simp: exchange_password_def split: option.splits)
next
  assume "findOne_client s (c_id client) = None \<or>
     (\<exists>d. findOne_client s (c_id client) = Some d \<and> c_scopes d \<noteq> [] \<and>
          c_secret d \<noteq> c_secret client)"
  then show "exchange_clientCredentials s now g client scope = (Rejected, s)"
    by (auto simp: exchange_clientCredentials_def split: option.splits)
next
  assume "\<exists>d. findOne_client s (c_id client) = Some d \<and> c_scopes d = []"
  then show "exchange_clientCredentials s now g client scope = (Failed ScopesError, s)"
    by (auto simp: exchange_clientCredentials_def split: option.splits)
qed

theorem compound_check_rejections_witness:
  "exchange_password plain_check db 0 gen1 (app1\<lparr>c_id := ''nobody''\<rparr>)
     ''alice@example.org'' ''hash'' [] = (Rejected, db) \<and>
   exchange_password plain_check db 0 gen1 (app1\<lparr>c_secret := ''guess''\<rparr>)
     ''alice@example.org'' ''hash'' [] = (Rejected, db) \<and>
   exchange_password plain_check db 0 gen1 app1 ''bob@example.org'' ''hash'' [] = (Rejected, db) \<and>
   exchange_password plain_check db 0 gen1 app1 ''alice@example.org'' ''guess'' [] = (Rejected, db) \<and>
   exchange_clientCredentials db 0 gen1 (app1\<lparr>c_id := ''nobody''\<rparr>) [] = (Rejected, db) \<and>
   exchange_clientCredentials db 0 gen1 (app1\<lparr>c_secret := ''guess''\<rparr>) [] = (Rejected, db) \<and>
   exchange_clientCredentials db 0 gen1 (app2\<lparr>c_secret := ''guess''\<rparr>) []
     = (Failed ScopesError, db)"
proof -
  have c1: "findOne_client db (c_id (app1\<lparr>c_id := ''nobody''\<rparr>)) = None"
    by (simp add: findOne_client_def example_defs)
  have c2: "findOne_client db (c_id (app1\<lparr>c_secret := ''guess''\<rparr>)) = Some app1
      \<and> c_secret app1 \<noteq> c_secret (app1\<lparr>c_secret := ''guess''\<rparr>) \<and> c_scopes app1 \<noteq> []"
    by (simp add: findOne_client_def example_defs)
  have c3: "findOne_user db ''bob@example.org'' = None"
    by (simp add: findOne_user_def example_defs)
  have c4: "findOne_user db ''alice@example.org'' = Some alice
      \<and> \<not> plain_check ''guess'' (u_password alice)"
    by (simp add: findOne_user_def example_defs)
  have c5: "findOne_client db (c_id (app2\<lparr>c_secret := ''guess''\<rparr>)) = Some app2
      \<and> c_scopes app2 = []"
    by (simp add: findOne_client_def example_defs)
  note t = compound_check_rejections [where s = db and now = 0 and g = gen1 and v = plain_check
      and scope = "[]"]
  show ?thesis
    using t [of "app1\<lparr>c_id := ''nobody''\<rparr>" "''alice@example.org''" "''hash''"]
      t [of "app1\<lparr>c_secret := ''guess''\<rparr>" "''alice@example.org''" "''hash''"]
      t [of app1 "''bob@example.org''" "''hash''"]
      t [of app1 "''alice@example.org''" "''guess''"]
      t [of "app2\<lparr>c_secret := ''guess''\<rparr>" "''alice@example.org''" "''hash''"]
      c1 c2 c3 c4 c5
    by simp
qed

section \<open>Deserializing the client of a transaction\<close>

text \<open>
  Claim C10. Loading the client of an in-flight transaction, given a client id that no
  client has, ends in an error for that transaction; and whenever it succeeds it yields
  a stored client with exactly that id, never an absent one.
\<close>

theorem loadTransactionClient_unknown_id:
  "(findOne_client s i = None \<longrightarrow> loadTransactionClient s i = Inl ClientNotFound) \<and>
   ((\<forall>c \<in> set (clients s). c_id c \<noteq> i) \<longrightarrow> loadTransactionClient s i = Inl ClientNotFound) \<and>
   (loadTransactionClient s i = Inr c \<longrightarrow> c \<in> set (clients s) \<and> c_id c = i)"
proof (intro conjI impI)
  assume "findOne_client s i = None"
  then show "loadTransactionClient s i = Inl ClientNotFound"
    by (simp add: loadTransactionClient_def deserializeClient_def)
next
  assume "\<forall>c \<in> set (clients s). c_id c \<noteq> i"
  then have "findOne_client s i = None"
    by (simp add: findOne_client_def find_None_iff)
  then show "loadTransactionClient s i = Inl ClientNotFound"
    by (simp add: loadTransactionClient_def deserializeClient_def)
next
  assume "loadTransactionClient s i = Inr c"
  then have "find (\<lambda>c. c_id c = i) (clients s) = Some c"
    by (simp add: loadTransactionClient_def deserializeClient_def findOne_client_def
        split: option.splits)
  then show "c \<in> set (clients s)" and "c_id c = i"
    by (auto simp: find_Some_iff)
qed

theorem loadTransactionClient_unknown_id_witness:
  "findOne_client db ''ghost'' = None \<and>
   loadTransactionClient db ''ghost'' = Inl ClientNotFound \<and>
   loadTransactionClient db ''app1'' = Inr app1 \<and>
   app1 \<in> set (clients db) \<and> c_id app1 = ''app1''"
proof -
  have a: "findOne_client db ''ghost'' = None"
    by (simp add: findOne_client_def example_defs)
  have b: "loadTransactionClient db ''app1'' = Inr app1"
    by (simp add: loadTransactionClient_def deserializeClient_def findOne_client_def
        example_defs)
  note t = loadTransactionClient_unknown_id
  have "loadTransactionClient db ''ghost'' = Inl ClientNotFound"
    using t [of db "''ghost''" app1, THEN conjunct1] a by (simp only: simp_thms)
  moreover have "app1 \<in> set (clients db) \<and> c_id app1 = ''app1''"
    using t [of db "''app1''" app1, THEN conjunct2, THEN conjunct2] b by (simp only: simp_thms)
  ultimately show ?thesis using a b by simp
qed

section \<open>Introspection\<close>

lemma find_SomeD: "find P xs = Some x \<Longrightarrow> x \<in> set xs \<and> P x"
  by (induction xs) (auto split: if_splits)

lemma find_NoneI: "(\<And>x. x \<in> set xs \<Longrightarrow> \<not> P x) \<Longrightarrow> find P xs = None"
  by (simp add: find_None_iff)

lemma find_SomeE: "x \<in> set xs \<Longrightarrow> P x \<Longrightarrow> \<exists>y. find P xs = Some y"
  by (cases "find P xs") (auto simp: find_None_iff)

lemma introspection_active_only:
  assumes "tokenIntrospectionEndpoint s now requester token = Sent (Active cid sc ex un)"
  shows "\<exists>t a c. token = Some t \<and> t \<noteq> [] \<and> findOne_accessToken s now t = Some a \<and>
           populate_client s (at_clientId a) = Some c \<and> c_id c = c_id requester \<and>
           cid = c_id c \<and> sc = join_space (at_scopes a) \<and> ex = at_expireAt a"
  using assms
  by (auto simp: tokenIntrospectionEndpoint_def split: option.splits if_splits)

lemma introspection_unexpired:
  assumes "findOne_accessToken s now t = Some a"
  shows "a \<in> set (accessTokens s) \<and> at_value a = t \<and> now < at_expireAt a"
  using assms unfolding findOne_accessToken_def by (auto dest: find_SomeD)

lemma introspection_not_live:
  assumes "\<forall>a \<in> set (accessTokens s). at_value a = t \<longrightarrow> at_expireAt a \<le> now"
  shows "tokenIntrospectionEndpoint s now requester (Some t) = Sent Inactive"
proof -
  have "findOne_accessToken s now t = None"
    unfolding findOne_accessToken_def using assms by (intro find_NoneI) auto
  then show ?thesis by (simp add: tokenIntrospectionEndpoint_def)
qed

text \<open>
  Where the client of the token resolves, the endpoint does what is asked of it. It
  answers \<^verbatim>\<open>active: true\<close>, with the token's details, only when an unexpired access
  token with the presented value is found and the client it resolves to has the id of
  the authenticated requester, and in that case it does. When no token is supplied,
  when no stored token has the value or the ones that have it are expired, and when
  the resolved client is another one, the answer is \<^verbatim>\<open>{ active: false }\<close> and nothing
  else.
\<close>

lemma introspection_active_iff_owned:
  "(tokenIntrospectionEndpoint s now requester token = Sent (Active cid sc ex un) \<longrightarrow>
      (\<exists>t a c. token = Some t \<and> findOne_accessToken s now t = Some a \<and>
         a \<in> set (accessTokens s) \<and> at_value a = t \<and> now < at_expireAt a \<and>
         populate_client s (at_clientId a) = Some c \<and> c_id c = c_id requester \<and>
         cid = c_id c \<and> sc = join_space (at_scopes a) \<and> ex = at_expireAt a)) \<and>
   (t \<noteq> [] \<and> findOne_accessToken s now t = Some a \<and>
      populate_client s (at_clientId a) = Some c \<and> c_id c = c_id requester \<longrightarrow>
      (\<exists>un'. tokenIntrospectionEndpoint s now requester (Some t) =
         Sent (Active (c_id c) (join_space (at_scopes a)) (at_expireAt a) un'))) \<and>
   (token = None \<or> token = Some [] \<longrightarrow>
      tokenIntrospectionEndpoint s now requester token = Sent Inactive) \<and>
   ((\<forall>a \<in> set (accessTokens s). at_value a = t \<longrightarrow> at_expireAt a \<le> now) \<longrightarrow>
      tokenIntrospectionEndpoint s now requester (Some t) = Sent Inactive) \<and>
   (findOne_accessToken s now t = Some a \<and>
      populate_client s (at_clientId a) = Some c \<and> c_id c \<noteq> c_id requester \<longrightarrow>
      tokenIntrospectionEndpoint s now requester (Some t) = Sent Inactive)"
proof (intro conjI impI)
  assume "tokenIntrospectionEndpoint s now requester token = Sent (Active cid sc ex un)"
  from introspection_active_only [OF this]
  show "\<exists>t a c. token = Some t \<and> findOne_accessToken s now t = Some a \<and>
         a \<in> set (accessTokens s) \<and> at_value a = t \<and> now < at_expireAt a \<and>
         populate_client s (at_clientId a) = Some c \<and> c_id c = c_id requester \<and>
         cid = c_id c \<and> sc = join_space (at_scopes a) \<and> ex = at_expireAt a"
    using introspection_unexpired by blast
next
  assume "t \<noteq> [] \<and> findOne_accessToken s now t = Some a \<and>
      populate_client s (at_clientId a) = Some c \<and> c_id c = c_id requester"
  then show "\<exists>un'. tokenIntrospectionEndpoint s now requester (Some t) =
         Sent (Active (c_id c) (join_space (at_scopes a)) (at_expireAt a) un')"
    by (simp add: tokenIntrospectionEndpoint_def)
next
  assume "token = None \<or> token = Some []"
  then show "tokenIntrospectionEndpoint s now requester token = Sent Inactive"
    by (auto simp: tokenIntrospectionEndpoint_def)
next
  assume "\<forall>a \<in> set (accessTokens s). at_value a = t \<longrightarrow> at_expireAt a \<le> now"
  then show "tokenIntrospectionEndpoint s now requester (Some t) = Sent Inactive"
    by (rule introspection_not_live)
next
  assume "findOne_accessToken s now t = Some a \<and>
      populate_client s (at_clientId a) = Some c \<and> c_id c \<noteq> c_id requester"
  then show "tokenIntrospectionEndpoint s now requester (Some t) = Sent Inactive"
    by (simp add: tokenIntrospectionEndpoint_def)
qed

lemma introspection_active_iff_owned_example:
  "tokenIntrospectionEndpoint db 0 app1 (Some ''tok1'') =
     Sent (Active ''app1'' ''read'' 180000 (Some ''alice'')) \<and>
   findOne_accessToken db 0 ''tok1'' = Some token1 \<and>
   populate_client db (at_clientId token1) = Some app1 \<and>
   tokenIntrospectionEndpoint db 0 app1 None = Sent Inactive \<and>
   tokenIntrospectionEndpoint db 0 app1 (Some ''tok0'') = Sent Inactive \<and>
   tokenIntrospectionEndpoint db 180000 app1 (Some ''tok1'') = Sent Inactive \<and>
   tokenIntrospectionEndpoint db 0 app2 (Some ''tok1'') = Sent Inactive"
proof -
  have run: "tokenIntrospectionEndpoint db 0 app1 (Some ''tok1'') =
     Sent (Active ''app1'' ''read'' 180000 (Some ''alice''))"
    by (simp add: tokenIntrospectionEndpoint_def store_defs example_defs)
  have found: "findOne_accessToken db 0 ''tok1'' = Some token1"
    by (simp add: store_defs example_defs)
  have owner: "populate_client db (at_clientId token1) = Some app1"
    by (simp add: store_defs example_defs)
  have ids: "c_id app1 \<noteq> c_id app2" "''tok1'' \<noteq> []"
    by (simp_all add: example_defs)
  have unknown: "\<forall>a \<in> set (accessTokens db). at_value a = ''tok0'' \<longrightarrow> at_expireAt a \<le> 0"
    by (simp add: example_defs)
  have expired: "\<forall>a \<in> set (accessTokens db). at_value a = ''tok1'' \<longrightarrow> at_expireAt a \<le> 180000"
    by (simp add: example_defs)
  show ?thesis
    using introspection_active_iff_owned [of db 0 app1 "Some ''tok1''" "''app1''" "''read''"
        180000 "Some ''alice''" "''tok1''" token1 app1]
      introspection_active_iff_owned [of db 0 app1 None "''app1''" "''read''"
        180000 "Some ''alice''" "''tok0''" token1 app1]
      introspection_active_iff_owned [of db 180000 app1 None "''app1''" "''read''"
        180000 "Some ''alice''" "''tok1''" token1 app1]
      introspection_active_iff_owned [of db 0 app2 None "''app1''" "''read''"
        180000 "Some ''alice''" "''tok1''" token1 app1]
      run found owner ids unknown expired
    by simp
qed

text \<open>
  Claim C7 wants \<^verbatim>\<open>{ active: false }\<close> in every negative case, and the handler's last
  comment says the same. The handler misses one: the client \<^verbatim>\<open>app1\<close> is gone, another
  client asks about a token that was issued to it, the populated \<^verbatim>\<open>clientId\<close> is
  \<^verbatim>\<open>null\<close>, \<^verbatim>\<open>typeof null === 'object'\<close> holds, and \<^verbatim>\<open>.id\<close> raises: no response is sent.
\<close>

theorem introspection_unresolved_client_raises:
  "findOne_accessToken orphaned 0 ''tok1'' = Some token1 \<and>
   populate_client orphaned (at_clientId token1) = None \<and>
   tokenIntrospectionEndpoint orphaned 0 app2 (Some ''tok1'') = Raised \<and>
   tokenIntrospectionEndpoint orphaned 0 app2 (Some ''tok1'') \<noteq> Sent Inactive"
  by (simp add: tokenIntrospectionEndpoint_def store_defs orphaned_def example_defs)

section \<open>Immediate approval\<close>

text \<open>
  Claim C8, as stated, fails. The user holds two unexpired access tokens for the
  client, the older one for \<^verbatim>\<open>read\<close> and the newer one for \<^verbatim>\<open>write\<close>. A request for
  \<^verbatim>\<open>write\<close> is not approved at once, although the second token has exactly that scope:
  \<^verbatim>\<open>findOne\<close> hands the callback the first token only.
\<close>

theorem authorization_immediate_counterexample:
  "token2 \<in> set (accessTokens db) \<and>
   at_clientId token2 = c_oid app1 \<and>
   at_userId token2 = Some (u_oid alice) \<and>
   0 < at_expireAt token2 \<and>
   set (at_scopes token2) = set [''write''] \<and>
   \<not> authorization_immediate db 0 app1 alice [''write'']"
  by (simp add: authorization_immediate_def isScopeEquals_def store_defs example_defs)

lemma authorization_immediate_findOne:
  "authorization_immediate s now client user scope \<longleftrightarrow>
     (\<exists>t. findOne_accessToken_of s now (c_oid client) (u_oid user) = Some t \<and>
          set (at_scopes t) = set scope)"
  by (simp add: authorization_immediate_def isScopeEquals_def split: option.splits)

lemma findOne_accessToken_of_held:
  assumes "findOne_accessToken_of s now cid uid = Some t"
  shows "t \<in> set (accessTokens s) \<and> at_clientId t = cid \<and> at_userId t = Some uid \<and>
         now < at_expireAt t"
  using assms unfolding findOne_accessToken_of_def by (auto dest: find_SomeD)

lemma findOne_accessToken_of_only:
  assumes held: "t \<in> set (accessTokens s)" "at_clientId t = cid" "at_userId t = Some uid"
      "now < at_expireAt t"
    and only: "\<forall>t' \<in> set (accessTokens s).
      at_clientId t' = cid \<and> at_userId t' = Some uid \<and> now < at_expireAt t' \<longrightarrow> t' = t"
  shows "findOne_accessToken_of s now cid uid = Some t"
proof -
  obtain y where y: "findOne_accessToken_of s now cid uid = Some y"
    unfolding findOne_accessToken_of_def
    using find_SomeE [of t "accessTokens s"
        "\<lambda>d. at_clientId d = cid \<and> at_userId d = Some uid \<and> now < at_expireAt d"] held
    by auto
  from findOne_accessToken_of_held [OF y] only have "y = t" by blast
  with y show ?thesis by simp
qed

text \<open>
  Claim C8, amended. The request is approved at once if and only if the access token
  that \<^verbatim>\<open>findOne\<close> returns for the client and the user, the first unexpired one in the
  store, has exactly the requested scopes as a set. So an approval always rests on a
  token the user holds for the client with exactly the requested scopes; a first token
  with strictly more scopes than requested leaves the decision to the user; and when
  the user holds a single unexpired token for the client, the request is approved
  exactly when that token's scope set equals the requested one.
\<close>

theorem authorization_immediate_first_token:
  "(authorization_immediate s now client user scope \<longleftrightarrow>
      (\<exists>t. findOne_accessToken_of s now (c_oid client) (u_oid user) = Some t \<and>
           set (at_scopes t) = set scope)) \<and>
   (authorization_immediate s now client user scope \<longrightarrow>
      (\<exists>t \<in> set (accessTokens s). at_clientId t = c_oid client \<and>
           at_userId t = Some (u_oid user) \<and> now < at_expireAt t \<and>
           set (at_scopes t) = set scope)) \<and>
   (findOne_accessToken_of s now (c_oid client) (u_oid user) = Some t \<and>
      set scope \<subset> set (at_scopes t) \<longrightarrow>
      \<not> authorization_immediate s now client user scope) \<and>
   (t \<in> set (accessTokens s) \<and> at_clientId t = c_oid client \<and>
      at_userId t = Some (u_oid user) \<and> now < at_expireAt t \<and>
      (\<forall>t' \<in> set (accessTokens s). at_clientId t' = c_oid client \<and>
           at_userId t' = Some (u_oid user) \<and> now < at_expireAt t' \<longrightarrow> t' = t) \<longrightarrow>
      (authorization_immediate s now client user scope \<longleftrightarrow> set (at_scopes t) = set scope))"
proof (intro conjI impI)
  show "authorization_immediate s now client user scope \<longleftrightarrow>
      (\<exists>t. findOne_accessToken_of s now (c_oid client) (u_oid user) = Some t \<and>
           set (at_scopes t) = set scope)"
    by (rule authorization_immediate_findOne)
next
  assume "authorization_immediate s now client user scope"
  then obtain t where "findOne_accessToken_of s now (c_oid client) (u_oid user) = Some t"
    and "set (at_scopes t) = set scope"
    unfolding authorization_immediate_findOne by blast
  with findOne_accessToken_of_held [of s now "c_oid client" "u_oid user" t]
  show "\<exists>t \<in> set (accessTokens s). at_clientId t = c_oid client \<and>
           at_userId t = Some (u_oid user) \<and> now < at_expireAt t \<and>
           set (at_scopes t) = set scope"
    by blast
next
  assume "findOne_accessToken_of s now (c_oid client) (u_oid user) = Some t \<and>
      set scope \<subset> set (at_scopes t)"
  then show "\<not> authorization_immediate s now client user scope"
    unfolding authorization_immediate_findOne by auto
next
  assume a: "t \<in> set (accessTokens s) \<and> at_clientId t = c_oid client \<and>
      at_userId t = Some (u_oid user) \<and> now < at_expireAt t \<and>
      (\<forall>t' \<in> set (accessTokens s). at_clientId t' = c_oid client \<and>
           at_userId t' = Some (u_oid user) \<and> now < at_expireAt t' \<longrightarrow> t' = t)"
  then have "findOne_accessToken_of s now (c_oid client) (u_oid user) = Some t"
    by (intro findOne_accessToken_of_only) auto
  then show "authorization_immediate s now client user scope \<longleftrightarrow> set (at_scopes t) = set scope"
    unfolding authorization_immediate_findOne by simp
qed

theorem authorization_immediate_first_token_witness:
  "findOne_accessToken_of db 0 (c_oid app1) (u_oid alice) = Some token1 \<and>
   authorization_immediate db 0 app1 alice [''read''] \<and>
   \<not> authorization_immediate db 0 app1 alice [] \<and>
   authorization_immediate (db\<lparr>accessTokens := [token2]\<rparr>) 0 app1 alice [''write'']"
proof -
  have first: "findOne_accessToken_of db 0 (c_oid app1) (u_oid alice) = Some token1"
    by (simp add: store_defs example_defs)
  have scopes: "set (at_scopes token1) = set [''read'']" "set [] \<subset> set (at_scopes token1)"
    "set (at_scopes token2) = set [''write'']"
    by (auto simp: example_defs)
  have single: "token2 \<in> set (accessTokens (db\<lparr>accessTokens := [token2]\<rparr>)) \<and>
      at_clientId token2 = c_oid app1 \<and> at_userId token2 = Some (u_oid alice) \<and>
      0 < at_expireAt token2 \<and>
      (\<forall>t' \<in> set (accessTokens (db\<lparr>accessTokens := [token2]\<rparr>)). at_clientId t' = c_oid app1 \<and>
           at_userId t' = Some (u_oid alice) \<and> 0 < at_expireAt t' \<longrightarrow> t' = token2)"
    by (simp add: example_defs)
  have a: "authorization_immediate db 0 app1 alice [''read'']"
    using authorization_immediate_first_token [of db 0 app1 alice "[''read'']" token1]
      first scopes(1)
    by blast
  have b: "\<not> authorization_immediate db 0 app1 alice []"
    using authorization_immediate_first_token [of db 0 app1 alice "[]" token1]
      first scopes(2)
    by blast
  have c: "authorization_immediate (db\<lparr>accessTokens := [token2]\<rparr>) 0 app1 alice [''write'']"
    using authorization_immediate_first_token [of "db\<lparr>accessTokens := [token2]\<rparr>" 0 app1 alice
        "[''write'']" token2]
      single scopes(3)
    by blast
  from first a b c show ?thesis by simp
qed

section \<open>Authorization-code exchange\<close>

lemma populate_client_oid: "populate_client s oid = Some c \<Longrightarrow> c_oid c = oid"
  unfolding populate_client_def by (auto dest: find_SomeD)

lemma findOne_authCode_stored:
  "findOne_authCode s now code = Some authCode \<Longrightarrow>
   authCode \<in> set (authCodes s) \<and> ac_value authCode = code \<and> now < ac_expireAt authCode"
  unfolding findOne_authCode_def by (auto dest: find_SomeD)

lemma remove_authCode_stored:
  "authCode \<in> set (authCodes s) \<Longrightarrow>
   remove_authCode cad s authCode =
     Inr (s\<lparr>authCodes := filter (\<lambda>x. ac_oid x \<noteq> ac_oid authCode) (authCodes s)\<rparr>)"
  by (simp add: remove_authCode_def)

lemma issue_refreshToken_fresh:
  assumes "g_refreshTokenValue g \<notin> set (map rt_value (refreshTokens s))"
    and "g_refreshTokenId g \<notin> set (map rt_oid (refreshTokens s))"
  shows "issue_refreshToken s now g a =
     (Issued (at_value a) (Some (g_refreshTokenValue g)) (at_expireAt a),
      s\<lparr>refreshTokens := refreshTokens s @
          [\<lparr>rt_oid = g_refreshTokenId g, rt_value = g_refreshTokenValue g,
            rt_accessTokenId = at_oid a, rt_expireAt = now + 180000\<rparr>]\<rparr>)"
  using assms
  by (simp add: issue_refreshToken_def save_refreshToken_def new_refreshToken_def
      REFRESH_TOKEN_EXPIRATION_TIME_def)

lemma exchange_code_redeem_fresh:
  assumes "fresh s g" and "authCode \<in> set (authCodes s)"
  shows "exchange_code_redeem cad s now g authCode c =
     (Issued (g_accessTokenValue g) (Some (g_refreshTokenValue g)) (now + 180000),
      s\<lparr>authCodes := filter (\<lambda>x. ac_oid x \<noteq> ac_oid authCode) (authCodes s),
        accessTokens := accessTokens s @
          [\<lparr>at_oid = g_accessTokenId g, at_value = g_accessTokenValue g,
            at_clientId = c_oid c, at_userId = Some (ac_userId authCode),
            at_scopes = ac_scopes authCode, at_grantType = GrantCode,
            at_expireAt = now + 180000\<rparr>],
        refreshTokens := refreshTokens s @
          [\<lparr>rt_oid = g_refreshTokenId g, rt_value = g_refreshTokenValue g,
            rt_accessTokenId = g_accessTokenId g, rt_expireAt = now + 180000\<rparr>]\<rparr>)"
  using assms
  by (simp add: exchange_code_redeem_def remove_authCode_stored fresh_def save_accessToken_def
      new_accessToken_def ACCESS_TOKEN_EXPIRATION_TIME_def issue_refreshToken_fresh)

lemma exchange_code_Issued_only:
  assumes "exchange_code cad s now g client code redirectUri = (Issued a r e, s')"
  shows "\<exists>authCode c. findOne_authCode s now code = Some authCode \<and>
           populate_client s (ac_clientId authCode) = Some c \<and>
           c_id client = c_id c \<and> redirectUri = ac_redirectUri authCode"
  using assms by (auto simp: exchange_code_def split: option.splits if_splits)

lemma exchange_code_match:
  assumes "fresh s g"
    and "findOne_authCode s now code = Some authCode"
    and "populate_client s (ac_clientId authCode) = Some c"
    and "c_id client = c_id c" and "redirectUri = ac_redirectUri authCode"
  shows "exchange_code cad s now g client code redirectUri =
     (Issued (g_accessTokenValue g) (Some (g_refreshTokenValue g)) (now + 180000),
      s\<lparr>authCodes := filter (\<lambda>x. ac_oid x \<noteq> ac_oid authCode) (authCodes s),
        accessTokens := accessTokens s @
          [\<lparr>at_oid = g_accessTokenId g, at_value = g_accessTokenValue g,
            at_clientId = ac_clientId authCode, at_userId = Some (ac_userId authCode),
            at_scopes = ac_scopes authCode, at_grantType = GrantCode,
            at_expireAt = now + 180000\<rparr>],
        refreshTokens := refreshTokens s @
          [\<lparr>rt_oid = g_refreshTokenId g, rt_value = g_refreshTokenValue g,
            rt_accessTokenId = g_accessTokenId g, rt_expireAt = now + 180000\<rparr>]\<rparr>)"
proof -
  have stored: "authCode \<in> set (authCodes s)"
    using findOne_authCode_stored assms(2) by blast
  have oid: "c_oid c = ac_clientId authCode"
    using populate_client_oid assms(3) by blast
  show ?thesis
    using assms(2-5) exchange_code_redeem_fresh [OF assms(1) stored, of cad now c] oid
    by (simp add: exchange_code_def)
qed

lemma exchange_code_mismatch:
  assumes "findOne_authCode s now code = None \<or>
     (\<exists>authCode c. findOne_authCode s now code = Some authCode \<and>
        populate_client s (ac_clientId authCode) = Some c \<and>
        (c_id client \<noteq> c_id c \<or> redirectUri \<noteq> ac_redirectUri authCode))"
  shows "exchange_code cad s now g client code redirectUri = (Rejected, s)"
  using assms by (auto simp: exchange_code_def)

text \<open>
  Where the client of the code resolves, the exchange does what is asked of it. With
  freshly generated values it issues if and only if an unexpired authorization code
  with the presented value is found, the client it resolves to has the id of the
  requesting client, and the redirect URI of the request equals the one stored on the
  code. When it issues, the code is deleted, one access token is added with grant type
  \<^verbatim>\<open>code\<close> and the code's user, client and scopes, and one refresh token is added that
  points to that access token; both values are returned. When the code is not found,
  or the client id or the redirect URI differs, the handler ends with
  \<^verbatim>\<open>done(null, false)\<close>.
\<close>

lemma exchange_code_issues_iff_match:
  assumes "fresh s g"
  shows
    "((\<exists>a r e s'. exchange_code cad s now g client code redirectUri = (Issued a r e, s')) \<longleftrightarrow>
        (\<exists>authCode c. findOne_authCode s now code = Some authCode \<and>
           populate_client s (ac_clientId authCode) = Some c \<and>
           c_id client = c_id c \<and> redirectUri = ac_redirectUri authCode)) \<and>
     (\<forall>authCode c. findOne_authCode s now code = Some authCode \<and>
           populate_client s (ac_clientId authCode) = Some c \<and>
           c_id client = c_id c \<and> redirectUri = ac_redirectUri authCode \<longrightarrow>
        exchange_code cad s now g client code redirectUri =
          (Issued (g_accessTokenValue g) (Some (g_refreshTokenValue g)) (now + 180000),
           s\<lparr>authCodes := filter (\<lambda>x. ac_oid x \<noteq> ac_oid authCode) (authCodes s),
             accessTokens := accessTokens s @
               [\<lparr>at_oid = g_accessTokenId g, at_value = g_accessTokenValue g,
                 at_clientId = ac_clientId authCode, at_userId = Some (ac_userId authCode),
                 at_scopes = ac_scopes authCode, at_grantType = GrantCode,
                 at_expireAt = now + 180000\<rparr>],
             refreshTokens := refreshTokens s @
               [\<lparr>rt_oid = g_refreshTokenId g, rt_value = g_refreshTokenValue g,
                 rt_accessTokenId = g_accessTokenId g, rt_expireAt = now + 180000\<rparr>]\<rparr>) \<and>
        authCode \<notin> set (authCodes (snd (exchange_code cad s now g client code redirectUri)))) \<and>
     (findOne_authCode s now code = None \<or>
        (\<exists>authCode c. findOne_authCode s now code = Some authCode \<and>
           populate_client s (ac_clientId authCode) = Some c \<and>
           (c_id client \<noteq> c_id c \<or> redirectUri \<noteq> ac_redirectUri authCode)) \<longrightarrow>
        exchange_code cad s now g client code redirectUri = (Rejected, s))"
proof (intro conjI allI impI iffI)
  assume "\<exists>a r e s'. exchange_code cad s now g client code redirectUri = (Issued a r e, s')"
  then show "\<exists>authCode c. findOne_authCode s now code = Some authCode \<and>
           populate_client s (ac_clientId authCode) = Some c \<and>
           c_id client = c_id c \<and> redirectUri = ac_redirectUri authCode"
    using exchange_code_Issued_only by blast
next
  assume "\<exists>authCode c. findOne_authCode s now code = Some authCode \<and>
           populate_client s (ac_clientId authCode) = Some c \<and>
           c_id client = c_id c \<and> redirectUri = ac_redirectUri authCode"
  then show "\<exists>a r e s'. exchange_code cad s now g client code redirectUri = (Issued a r e, s')"
    using exchange_code_match [OF assms] by blast
next
  fix authCode c
  assume m: "findOne_authCode s now code = Some authCode \<and>
           populate_client s (ac_clientId authCode) = Some c \<and>
           c_id client = c_id c \<and> redirectUri = ac_redirectUri authCode"
  then show run: "exchange_code cad s now g client code redirectUri =
          (Issued (g_accessTokenValue g) (Some (g_refreshTokenValue g)) (now + 180000),
           s\<lparr>authCodes := filter (\<lambda>x. ac_oid x \<noteq> ac_oid authCode) (authCodes s),
             accessTokens := accessTokens s @
               [\<lparr>at_oid = g_accessTokenId g, at_value = g_accessTokenValue g,
                 at_clientId = ac_clientId authCode, at_userId = Some (ac_userId authCode),
                 at_scopes = ac_scopes authCode, at_grantType = GrantCode,
                 at_expireAt = now + 180000\<rparr>],
             refreshTokens := refreshTokens s @
               [\<lparr>rt_oid = g_refreshTokenId g, rt_value = g_refreshTokenValue g,
                 rt_accessTokenId = g_accessTokenId g, rt_expireAt = now + 180000\<rparr>]\<rparr>)"
    using exchange_code_match [OF assms] by blast
  show "authCode \<notin> set (authCodes (snd (exchange_code cad s now g client code redirectUri)))"
    unfolding run by simp
next
  assume "findOne_authCode s now code = None \<or>
        (\<exists>authCode c. findOne_authCode s now code = Some authCode \<and>
           populate_client s (ac_clientId authCode) = Some c \<and>
           (c_id client \<noteq> c_id c \<or> redirectUri \<noteq> ac_redirectUri authCode))"
  then show "exchange_code cad s now g client code redirectUri = (Rejected, s)"
    by (rule exchange_code_mismatch)
qed

lemma exchange_code_issues_iff_match_example:
  "fresh db gen1 \<and>
   findOne_authCode db 0 ''abc'' = Some code1 \<and>
   populate_client db (ac_clientId code1) = Some app1 \<and>
   exchange_code True db 0 gen1 app1 ''abc'' ''https://app/cb'' =
     (Issued ''tok3'' (Some ''ref3'') 180000,
      db\<lparr>authCodes := [],
         accessTokens := [token1, token2,
           \<lparr>at_oid = 3, at_value = ''tok3'', at_clientId = 1, at_userId = Some 1,
             at_scopes = [''read''], at_grantType = GrantCode, at_expireAt = 180000\<rparr>],
         refreshTokens := [refresh1,
           \<lparr>rt_oid = 3, rt_value = ''ref3'', rt_accessTokenId = 3, rt_expireAt = 180000\<rparr>]\<rparr>) \<and>
   exchange_code True db 0 gen1 app1 ''abc'' ''https://evil/cb'' = (Rejected, db) \<and>
   exchange_code True db 0 gen1 app2 ''abc'' ''https://app/cb'' = (Rejected, db) \<and>
   exchange_code True db 0 gen1 app1 ''abd'' ''https://app/cb'' = (Rejected, db)"
proof -
  have f: "fresh db gen1"
    by (simp add: fresh_def example_defs)
  have found: "findOne_authCode db 0 ''abc'' = Some code1"
    by (simp add: store_defs example_defs)
  have missing: "findOne_authCode db 0 ''abd'' = None"
    by (simp add: store_defs example_defs)
  have owner: "populate_client db (ac_clientId code1) = Some app1"
    by (simp add: store_defs example_defs)
  have same: "c_id app1 = c_id app1 \<and> ''https://app/cb'' = ac_redirectUri code1"
    by (simp add: example_defs)
  have other_uri: "c_id app1 \<noteq> c_id app1 \<or> ''https://evil/cb'' \<noteq> ac_redirectUri code1"
    by (simp add: example_defs)
  have other_client: "c_id app2 \<noteq> c_id app1 \<or> ''https://app/cb'' \<noteq> ac_redirectUri code1"
    by (simp add: example_defs)
  note t = exchange_code_issues_iff_match [OF f, of True 0]
  note t_issue = t [THEN conjunct2, THEN conjunct1, rule_format]
  note t_reject = t [THEN conjunct2, THEN conjunct2, rule_format]
  have issued: "exchange_code True db 0 gen1 app1 ''abc'' ''https://app/cb'' =
     (Issued (g_accessTokenValue gen1) (Some (g_refreshTokenValue gen1)) (0 + 180000),
      db\<lparr>authCodes := filter (\<lambda>x. ac_oid x \<noteq> ac_oid code1) (authCodes db),
        accessTokens := accessTokens db @
          [\<lparr>at_oid = g_accessTokenId gen1, at_value = g_accessTokenValue gen1,
            at_clientId = ac_clientId code1, at_userId = Some (ac_userId code1),
            at_scopes = ac_scopes code1, at_grantType = GrantCode,
            at_expireAt = 0 + 180000\<rparr>],
        refreshTokens := refreshTokens db @
          [\<lparr>rt_oid = g_refreshTokenId gen1, rt_value = g_refreshTokenValue gen1,
            rt_accessTokenId = g_accessTokenId gen1, rt_expireAt = 0 + 180000\<rparr>]\<rparr>)"
    using t_issue [where client = app1 and code = "''abc''" and authCode = code1 and c = app1
        and redirectUri = "''https://app/cb''"] found owner same
    by (simp only: simp_thms)
  have r1: "exchange_code True db 0 gen1 app1 ''abc'' ''https://evil/cb'' = (Rejected, db)"
    by (rule t_reject, rule disjI2, intro exI conjI, rule found, rule owner, rule other_uri)
  have r2: "exchange_code True db 0 gen1 app2 ''abc'' ''https://app/cb'' = (Rejected, db)"
    by (rule t_reject, rule disjI2, intro exI conjI, rule found, rule owner, rule other_client)
  have r3: "exchange_code True db 0 gen1 app1 ''abd'' ''https://app/cb'' = (Rejected, db)"
    by (rule t_reject, rule disjI1, rule missing)
  from f found owner r1 r2 r3 show ?thesis
    unfolding issued by (simp add: example_defs)
qed

text \<open>
  Claim C1 wants every mismatch to end in \<^verbatim>\<open>done(null, false)\<close>, a false result and not
  an exception, and the comment in the handler's \<^verbatim>\<open>else\<close> branch says the same of an
  invalid client id or redirect URI. The handler misses one case: the client \<^verbatim>\<open>app1\<close>
  is gone, another client presents the code that was issued to it, with another
  redirect URI; the populated \<^verbatim>\<open>clientId\<close> is \<^verbatim>\<open>null\<close> and \<^verbatim>\<open>.id\<close> raises before the
  \<^verbatim>\<open>try\<close>: \<^verbatim>\<open>done\<close> is never called.
\<close>

theorem exchange_code_unresolved_client_raises:
  "findOne_authCode orphaned 0 ''abc'' = Some code1 \<and>
   populate_client orphaned (ac_clientId code1) = None \<and>
   c_oid app2 \<noteq> ac_clientId code1 \<and>
   ''https://evil/cb'' \<noteq> ac_redirectUri code1 \<and>
   exchange_code False orphaned 0 gen1 app2 ''abc'' ''https://evil/cb'' = (Uncaught, orphaned) \<and>
   exchange_code False orphaned 0 gen1 app2 ''abc'' ''https://evil/cb'' \<noteq> (Rejected, orphaned)"
  by (simp add: exchange_code_def store_defs orphaned_def example_defs)

section \<open>Refresh-token exchange\<close>

lemma findOne_refreshToken_stored:
  "findOne_refreshToken s now v = Some d \<Longrightarrow>
   d \<in> set (refreshTokens s) \<and> rt_value d = v \<and> now < rt_expireAt d"
  unfolding findOne_refreshToken_def by (auto dest: find_SomeD)

lemma populate_accessToken_stored:
  "populate_accessToken s now oid = Some old \<Longrightarrow>
   old \<in> set (accessTokens s) \<and> at_oid old = oid \<and> now < at_expireAt old"
  unfolding populate_accessToken_def by (auto dest: find_SomeD)

lemma save_accessToken_fresh:
  assumes "at_value a \<notin> set (map at_value (accessTokens s))"
    and "at_oid a \<notin> set (map at_oid (accessTokens s))"
  shows "save_accessToken s a = Inr (s\<lparr>accessTokens := accessTokens s @ [a]\<rparr>)"
  using assms by (simp add: save_accessToken_def)

lemma remove_accessToken_stored:
  "old \<in> set (accessTokens s) \<Longrightarrow>
   remove_accessToken cad s old =
     Inr (s\<lparr>accessTokens := filter (\<lambda>x. at_oid x \<noteq> at_oid old) (accessTokens s)\<rparr>)"
  by (simp add: remove_accessToken_def)

lemma remove_refreshToken_stored:
  "d \<in> set (refreshTokens s) \<Longrightarrow>
   remove_refreshToken cad s d =
     Inr (s\<lparr>refreshTokens := filter (\<lambda>x. rt_oid x \<noteq> rt_oid d) (refreshTokens s)\<rparr>)"
  by (simp add: remove_refreshToken_def)

lemma exchange_refreshToken_rotate_fresh:
  assumes f: "fresh s g" and d: "d \<in> set (refreshTokens s)" and old: "old \<in> set (accessTokens s)"
  shows "exchange_refreshToken_rotate cad s now g d old c =
     (Issued (g_accessTokenValue g) (Some (g_refreshTokenValue g)) (now + 180000),
      s\<lparr>accessTokens := filter (\<lambda>x. at_oid x \<noteq> at_oid old) (accessTokens s) @
          [\<lparr>at_oid = g_accessTokenId g, at_value = g_accessTokenValue g,
            at_clientId = c_oid c, at_userId = at_userId old,
            at_scopes = at_scopes old, at_grantType = at_grantType old,
            at_expireAt = now + 180000\<rparr>],
        refreshTokens := filter (\<lambda>x. rt_oid x \<noteq> rt_oid d) (refreshTokens s) @
          [\<lparr>rt_oid = g_refreshTokenId g, rt_value = g_refreshTokenValue g,
            rt_accessTokenId = g_accessTokenId g, rt_expireAt = now + 180000\<rparr>]\<rparr>)"
proof -
  let ?new = "new_accessToken now g (c_oid c) (at_userId old) (at_scopes old) (at_grantType old)"
  let ?s1 = "s\<lparr>accessTokens := accessTokens s @ [?new]\<rparr>"
  let ?s2 = "?s1\<lparr>accessTokens := filter (\<lambda>x. at_oid x \<noteq> at_oid old) (accessTokens ?s1)\<rparr>"
  let ?s3 = "?s2\<lparr>refreshTokens := filter (\<lambda>x. rt_oid x \<noteq> rt_oid d) (refreshTokens ?s2)\<rparr>"
  have save: "save_accessToken s ?new = Inr ?s1"
    using f by (intro save_accessToken_fresh) (simp_all add: fresh_def new_accessToken_def)
  have rm1: "remove_accessToken cad ?s1 old = Inr ?s2"
    using old by (intro remove_accessToken_stored) simp
  have rm2: "remove_refreshToken cad ?s2 d = Inr ?s3"
    using d by (intro remove_refreshToken_stored) simp
  have differ: "g_accessTokenId g \<noteq> at_oid old"
    using f old by (auto simp: fresh_def)
  have v: "g_refreshTokenValue g \<notin> set (map rt_value (refreshTokens ?s3))"
    and i: "g_refreshTokenId g \<notin> set (map rt_oid (refreshTokens ?s3))"
    using f by (auto simp: fresh_def)
  have "exchange_refreshToken_rotate cad s now g d old c = issue_refreshToken ?s3 now g ?new"
    by (simp only: exchange_refreshToken_rotate_def Let_def save rm1 rm2 sum.case)
  also have "\<dots> = (Issued (at_value ?new) (Some (g_refreshTokenValue g)) (at_expireAt ?new),
      ?s3\<lparr>refreshTokens := refreshTokens ?s3 @
          [\<lparr>rt_oid = g_refreshTokenId g, rt_value = g_refreshTokenValue g,
            rt_accessTokenId = at_oid ?new, rt_expireAt = now + 180000\<rparr>]\<rparr>)"
    by (rule issue_refreshToken_fresh [OF v i])
  finally show ?thesis
    using differ by (simp add: new_accessToken_def ACCESS_TOKEN_EXPIRATION_TIME_def)
qed

lemma exchange_refreshToken_match:
  assumes "fresh s g"
    and "findOne_refreshToken s now refreshToken = Some d"
    and "populate_accessToken s now (rt_accessTokenId d) = Some old"
    and "populate_client s (at_clientId old) = Some c"
    and "c_id c = c_id client"
  shows "exchange_refreshToken cad s now g client refreshToken scope =
     (Issued (g_accessTokenValue g) (Some (g_refreshTokenValue g)) (now + 180000),
      s\<lparr>accessTokens := filter (\<lambda>x. at_oid x \<noteq> at_oid old) (accessTokens s) @
          [\<lparr>at_oid = g_accessTokenId g, at_value = g_accessTokenValue g,
            at_clientId = at_clientId old, at_userId = at_userId old,
            at_scopes = at_scopes old, at_grantType = at_grantType old,
            at_expireAt = now + 180000\<rparr>],
        refreshTokens := filter (\<lambda>x. rt_oid x \<noteq> rt_oid d) (refreshTokens s) @
          [\<lparr>rt_oid = g_refreshTokenId g, rt_value = g_refreshTokenValue g,
            rt_accessTokenId = g_accessTokenId g, rt_expireAt = now + 180000\<rparr>]\<rparr>)"
proof -
  have d: "d \<in> set (refreshTokens s)"
    using findOne_refreshToken_stored assms(2) by blast
  have old: "old \<in> set (accessTokens s)"
    using populate_accessToken_stored assms(3) by blast
  have oid: "c_oid c = at_clientId old"
    using populate_client_oid assms(4) by blast
  show ?thesis
    using assms(2-5) exchange_refreshToken_rotate_fresh [OF assms(1) d old, of cad now c] oid
    by (simp add: exchange_refreshToken_def)
qed

lemma exchange_refreshToken_Issued_only:
  assumes "exchange_refreshToken cad s now g client refreshToken scope = (Issued a r e, s')"
  shows "\<exists>d old c. findOne_refreshToken s now refreshToken = Some d \<and>
           populate_accessToken s now (rt_accessTokenId d) = Some old \<and>
           populate_client s (at_clientId old) = Some c \<and> c_id c = c_id client"
  using assms by (auto simp: exchange_refreshToken_def split: option.splits if_splits)

lemma exchange_refreshToken_mismatch:
  assumes "findOne_refreshToken s now refreshToken = None \<or>
     (\<exists>d old c. findOne_refreshToken s now refreshToken = Some d \<and>
        populate_accessToken s now (rt_accessTokenId d) = Some old \<and>
        populate_client s (at_clientId old) = Some c \<and> c_id c \<noteq> c_id client)"
  shows "exchange_refreshToken cad s now g client refreshToken scope = (Rejected, s)"
  using assms by (auto simp: exchange_refreshToken_def)

text \<open>
  Where the access token of the refresh token and its client resolve, the exchange
  does what is asked of it. With freshly generated values: when an unexpired refresh
  token with the presented value is found and the client of its access token has the
  id of the requesting client, the refresh-token exchange adds one access token with
  the user, client, scopes and grant type of the old one, deletes the old access token
  and the old refresh token, adds one refresh token that points to the new access
  token, and returns both new values; it issues in no other case. When the refresh
  token is not found, or the resolved client has another id, it ends with
  \<^verbatim>\<open>done(null, false)\<close>.
\<close>

lemma exchange_refreshToken_rotates:
  assumes "fresh s g"
  shows
    "(\<forall>d old c. findOne_refreshToken s now refreshToken = Some d \<and>
           populate_accessToken s now (rt_accessTokenId d) = Some old \<and>
           populate_client s (at_clientId old) = Some c \<and> c_id c = c_id client \<longrightarrow>
        exchange_refreshToken cad s now g client refreshToken scope =
          (Issued (g_accessTokenValue g) (Some (g_refreshTokenValue g)) (now + 180000),
           s\<lparr>accessTokens := filter (\<lambda>x. at_oid x \<noteq> at_oid old) (accessTokens s) @
               [\<lparr>at_oid = g_accessTokenId g, at_value = g_accessTokenValue g,
                 at_clientId = at_clientId old, at_userId = at_userId old,
                 at_scopes = at_scopes old, at_grantType = at_grantType old,
                 at_expireAt = now + 180000\<rparr>],
             refreshTokens := filter (\<lambda>x. rt_oid x \<noteq> rt_oid d) (refreshTokens s) @
               [\<lparr>rt_oid = g_refreshTokenId g, rt_value = g_refreshTokenValue g,
                 rt_accessTokenId = g_accessTokenId g, rt_expireAt = now + 180000\<rparr>]\<rparr>) \<and>
        old \<notin> set (accessTokens
                     (snd (exchange_refreshToken cad s now g client refreshToken scope))) \<and>
        d \<notin> set (refreshTokens
                   (snd (exchange_refreshToken cad s now g client refreshToken scope)))) \<and>
     ((\<exists>a r e s'. exchange_refreshToken cad s now g client refreshToken scope
           = (Issued a r e, s')) \<longrightarrow>
        (\<exists>d old c. findOne_refreshToken s now refreshToken = Some d \<and>
           populate_accessToken s now (rt_accessTokenId d) = Some old \<and>
           populate_client s (at_clientId old) = Some c \<and> c_id c = c_id client)) \<and>
     (findOne_refreshToken s now refreshToken = None \<or>
        (\<exists>d old c. findOne_refreshToken s now refreshToken = Some d \<and>
           populate_accessToken s now (rt_accessTokenId d) = Some old \<and>
           populate_client s (at_clientId old) = Some c \<and> c_id c \<noteq> c_id client) \<longrightarrow>
        exchange_refreshToken cad s now g client refreshToken scope = (Rejected, s))"
proof (intro conjI allI impI)
  fix d old c
  assume m: "findOne_refreshToken s now refreshToken = Some d \<and>
           populate_accessToken s now (rt_accessTokenId d) = Some old \<and>
           populate_client s (at_clientId old) = Some c \<and> c_id c = c_id client"
  then show run: "exchange_refreshToken cad s now g client refreshToken scope =
          (Issued (g_accessTokenValue g) (Some (g_refreshTokenValue g)) (now + 180000),
           s\<lparr>accessTokens := filter (\<lambda>x. at_oid x \<noteq> at_oid old) (accessTokens s) @
               [\<lparr>at_oid = g_accessTokenId g, at_value = g_accessTokenValue g,
                 at_clientId = at_clientId old, at_userId = at_userId old,
                 at_scopes = at_scopes old, at_grantType = at_grantType old,
                 at_expireAt = now + 180000\<rparr>],
             refreshTokens := filter (\<lambda>x. rt_oid x \<noteq> rt_oid d) (refreshTokens s) @
               [\<lparr>rt_oid = g_refreshTokenId g, rt_value = g_refreshTokenValue g,
                 rt_accessTokenId = g_accessTokenId g, rt_expireAt = now + 180000\<rparr>]\<rparr>)"
    using exchange_refreshToken_match [OF assms] by blast
  have "old \<in> set (accessTokens s)" "d \<in> set (refreshTokens s)"
    using m populate_accessToken_stored findOne_refreshToken_stored by blast+
  then have ne: "g_accessTokenId g \<noteq> at_oid old" "g_refreshTokenId g \<noteq> rt_oid d"
    using assms by (auto simp: fresh_def)
  show "old \<notin> set (accessTokens
                     (snd (exchange_refreshToken cad s now g client refreshToken scope)))"
    unfolding run using ne by (auto dest!: arg_cong [where f = at_oid])
  show "d \<notin> set (refreshTokens
                   (snd (exchange_refreshToken cad s now g client refreshToken scope)))"
    unfolding run using ne by (auto dest!: arg_cong [where f = rt_oid])
next
  assume "\<exists>a r e s'. exchange_refreshToken cad s now g client refreshToken scope
           = (Issued a r e, s')"
  then show "\<exists>d old c. findOne_refreshToken s now refreshToken = Some d \<and>
           populate_accessToken s now (rt_accessTokenId d) = Some old \<and>
           populate_client s (at_clientId old) = Some c \<and> c_id c = c_id client"
    using exchange_refreshToken_Issued_only by blast
next
  assume "findOne_refreshToken s now refreshToken = None \<or>
        (\<exists>d old c. findOne_refreshToken s now refreshToken = Some d \<and>
           populate_accessToken s now (rt_accessTokenId d) = Some old \<and>
           populate_client s (at_clientId old) = Some c \<and> c_id c \<noteq> c_id client)"
  then show "exchange_refreshToken cad s now g client refreshToken scope = (Rejected, s)"
    by (rule exchange_refreshToken_mismatch)
qed

lemma exchange_refreshToken_rotates_example:
  "fresh db gen1 \<and>
   findOne_refreshToken db 0 ''ref1'' = Some refresh1 \<and>
   populate_accessToken db 0 (rt_accessTokenId refresh1) = Some token1 \<and>
   populate_client db (at_clientId token1) = Some app1 \<and>
   exchange_refreshToken True db 0 gen1 app1 ''ref1'' [] =
     (Issued ''tok3'' (Some ''ref3'') 180000,
      db\<lparr>accessTokens := [token2,
           \<lparr>at_oid = 3, at_value = ''tok3'', at_clientId = 1, at_userId = Some 1,
             at_scopes = [''read''], at_grantType = GrantCode, at_expireAt = 180000\<rparr>],
         refreshTokens :=
           [\<lparr>rt_oid = 3, rt_value = ''ref3'', rt_accessTokenId = 3, rt_expireAt = 180000\<rparr>]\<rparr>) \<and>
   exchange_refreshToken True db 0 gen1 app2 ''ref1'' [] = (Rejected, db) \<and>
   exchange_refreshToken True db 0 gen1 app1 ''ref0'' [] = (Rejected, db)"
proof -
  have f: "fresh db gen1"
    by (simp add: fresh_def example_defs)
  have found: "findOne_refreshToken db 0 ''ref1'' = Some refresh1"
    by (simp add: store_defs example_defs)
  have missing: "findOne_refreshToken db 0 ''ref0'' = None"
    by (simp add: store_defs example_defs)
  have paired: "populate_accessToken db 0 (rt_accessTokenId refresh1) = Some token1"
    by (simp add: store_defs example_defs)
  have owner: "populate_client db (at_clientId token1) = Some app1"
    by (simp add: store_defs example_defs)
  have same: "c_id app1 = c_id app1"
    by simp
  have other: "c_id app1 \<noteq> c_id app2"
    by (simp add: example_defs)
  note t = exchange_refreshToken_rotates [OF f, where now = 0 and cad = True and scope = "[]"]
  note t_issue = t [THEN conjunct1, rule_format]
  note t_reject = t [THEN conjunct2, THEN conjunct2, rule_format]
  have issued: "exchange_refreshToken True db 0 gen1 app1 ''ref1'' [] =
     (Issued (g_accessTokenValue gen1) (Some (g_refreshTokenValue gen1)) (0 + 180000),
      db\<lparr>accessTokens := filter (\<lambda>x. at_oid x \<noteq> at_oid token1) (accessTokens db) @
          [\<lparr>at_oid = g_accessTokenId gen1, at_value = g_accessTokenValue gen1,
            at_clientId = at_clientId token1, at_userId = at_userId token1,
            at_scopes = at_scopes token1, at_grantType = at_grantType token1,
            at_expireAt = 0 + 180000\<rparr>],
        refreshTokens := filter (\<lambda>x. rt_oid x \<noteq> rt_oid refresh1) (refreshTokens db) @
          [\<lparr>rt_oid = g_refreshTokenId gen1, rt_value = g_refreshTokenValue gen1,
            rt_accessTokenId = g_accessTokenId gen1, rt_expireAt = 0 + 180000\<rparr>]\<rparr>)"
    using t_issue [where refreshToken = "''ref1''" and d = refresh1 and old = token1
        and c = app1 and client = app1] found paired owner same
    by (simp only: simp_thms)
  have r1: "exchange_refreshToken True db 0 gen1 app2 ''ref1'' [] = (Rejected, db)"
    by (rule t_reject, rule disjI2, intro exI conjI, rule found, rule paired, rule owner,
        rule other)
  have r2: "exchange_refreshToken True db 0 gen1 app1 ''ref0'' [] = (Rejected, db)"
    by (rule t_reject, rule disjI1, rule missing)
  from f found paired owner r1 r2 show ?thesis
    unfolding issued by (simp add: example_defs)
qed

text \<open>
  Claim C3 wants a refresh token that is not the requesting client's to end in
  \<^verbatim>\<open>done(null, false)\<close>. The handler checks \<^verbatim>\<open>refreshTokenDoc\<close> for \<^verbatim>\<open>null\<close> but not the
  references populated below it, and reads \<^verbatim>\<open>.clientId\<close> and \<^verbatim>\<open>.id\<close> of them before the
  \<^verbatim>\<open>try\<close>. So it raises, and never calls \<^verbatim>\<open>done\<close>, when the client \<^verbatim>\<open>app1\<close> is gone
  and another client presents the refresh token that was issued to it, and when the
  access token has expired a millisecond before its refresh token.
\<close>

theorem exchange_refreshToken_unresolved_reference_raises:
  "findOne_refreshToken orphaned 0 ''ref1'' = Some refresh1 \<and>
   populate_accessToken orphaned 0 (rt_accessTokenId refresh1) = Some token1 \<and>
   populate_client orphaned (at_clientId token1) = None \<and>
   c_oid app2 \<noteq> at_clientId token1 \<and>
   exchange_refreshToken False orphaned 0 gen1 app2 ''ref1'' [] = (Uncaught, orphaned) \<and>
   exchange_refreshToken False orphaned 0 gen1 app2 ''ref1'' [] \<noteq> (Rejected, orphaned) \<and>
   findOne_refreshToken staggered 180000 ''ref1'' = Some (refresh1\<lparr>rt_expireAt := 180001\<rparr>) \<and>
   populate_accessToken staggered 180000 (rt_accessTokenId refresh1) = None \<and>
   exchange_refreshToken False staggered 180000 gen1 app2 ''ref1'' [] = (Uncaught, staggered)"
  by (simp add: exchange_refreshToken_def store_defs orphaned_def staggered_def example_defs)

section \<open>Single use\<close>

text \<open>
  Claim C2 wants one success at most among the requests that present the same
  single-use value. Two requests present the code \<^verbatim>\<open>abc\<close>, or the refresh token
  \<^verbatim>\<open>ref1\<close>, and both look it up before either deletes it. The handlers await
  \<^verbatim>\<open>remove()\<close> and never look at what it did, and Mongoose's \<^verbatim>\<open>remove\<close> resolves on a
  row that is already gone: both requests issue, and the store ends with the access
  tokens and the refresh tokens of both.
\<close>

theorem overlapped_exchanges_both_issue:
  "findOne_authCode db 0 ''abc'' = Some code1 \<and>
   fst (exchange_code_overlapped False db 0 gen1 gen2 app1 ''abc'' ''https://app/cb'')
     = Issued ''tok3'' (Some ''ref3'') 180000 \<and>
   fst (snd (exchange_code_overlapped False db 0 gen1 gen2 app1 ''abc'' ''https://app/cb''))
     = Issued ''tok4'' (Some ''ref4'') 180000 \<and>
   map at_value (accessTokens
       (snd (snd (exchange_code_overlapped False db 0 gen1 gen2 app1 ''abc'' ''https://app/cb''))))
     = [''tok1'', ''tok2'', ''tok3'', ''tok4''] \<and>
   map rt_value (refreshTokens
       (snd (snd (exchange_code_overlapped False db 0 gen1 gen2 app1 ''abc'' ''https://app/cb''))))
     = [''ref1'', ''ref3'', ''ref4''] \<and>
   findOne_refreshToken db 0 ''ref1'' = Some refresh1 \<and>
   fst (exchange_refreshToken_overlapped False db 0 gen1 gen2 app1 ''ref1'')
     = Issued ''tok3'' (Some ''ref3'') 180000 \<and>
   fst (snd (exchange_refreshToken_overlapped False db 0 gen1 gen2 app1 ''ref1''))
     = Issued ''tok4'' (Some ''ref4'') 180000 \<and>
   map at_value (accessTokens
       (snd (snd (exchange_refreshToken_overlapped False db 0 gen1 gen2 app1 ''ref1''))))
     = [''tok2'', ''tok3'', ''tok4''] \<and>
   map rt_value (refreshTokens
       (snd (snd (exchange_refreshToken_overlapped False db 0 gen1 gen2 app1 ''ref1''))))
     = [''ref3'', ''ref4'']"
  by (simp add: exchange_code_overlapped_def exchange_code_redeem_def
      exchange_refreshToken_overlapped_def exchange_refreshToken_rotate_def
      issue_refreshToken_def store_defs example_defs)

text \<open>
  What the handlers do achieve. Requests that run one after the other succeed at most
  once: after an exchange has issued, a later request with the same value ends with
  \<^verbatim>\<open>done(null, false)\<close> and changes nothing. And a request that looked the credential
  up before the other one deleted it is never rejected with \<^verbatim>\<open>done(null, false)\<close>.
\<close>

lemma exchange_code_redeem_Issued:
  assumes "exchange_code_redeem cad s now g authCode c = (Issued a r e, s')"
  shows "authCodes s' = filter (\<lambda>x. ac_oid x \<noteq> ac_oid authCode) (authCodes s)"
  using assms
  by (auto simp: exchange_code_redeem_def remove_authCode_def save_accessToken_def
      issue_refreshToken_def save_refreshToken_def Let_def split: sum.splits if_splits)

lemma exchange_code_Issued:
  assumes "exchange_code cad s now g client code redirectUri = (Issued a r e, s')"
  shows "\<exists>authCode. findOne_authCode s now code = Some authCode \<and>
           authCodes s' = filter (\<lambda>x. ac_oid x \<noteq> ac_oid authCode) (authCodes s)"
  using assms exchange_code_redeem_Issued
  by (auto simp: exchange_code_def split: option.splits if_splits)

lemma distinct_values_removed:
  assumes "distinct (map val xs)" and "d \<in> set xs"
    and "x \<in> set (filter (\<lambda>x. oid x \<noteq> oid d) xs)"
  shows "val x \<noteq> val d"
proof
  assume "val x = val d"
  moreover have "x \<in> set xs" using assms(3) by simp
  moreover have "inj_on val (set xs)" using assms(1) by (simp add: distinct_map)
  ultimately have "x = d" using assms(2) by (auto dest: inj_onD)
  with assms(3) show False by simp
qed

lemma exchange_code_spent:
  assumes "distinct (map ac_value (authCodes s))"
    and "exchange_code cad s now g client code redirectUri = (Issued a r e, s')"
  shows "exchange_code cad' s' now' g' client' code redirectUri' = (Rejected, s')"
proof -
  obtain authCode where found: "findOne_authCode s now code = Some authCode"
    and left: "authCodes s' = filter (\<lambda>x. ac_oid x \<noteq> ac_oid authCode) (authCodes s)"
    using exchange_code_Issued [OF assms(2)] by blast
  have stored: "authCode \<in> set (authCodes s)" and v: "ac_value authCode = code"
    using findOne_authCode_stored [OF found] by simp_all
  have "findOne_authCode s' now' code = None"
    unfolding findOne_authCode_def
  proof (rule find_NoneI)
    fix x assume "x \<in> set (authCodes s')"
    then have "ac_value x \<noteq> ac_value authCode"
      unfolding left using distinct_values_removed [OF assms(1) stored] by blast
    then show "\<not> (ac_value x = code \<and> now' < ac_expireAt x)"
      using v by simp
  qed
  then show ?thesis by (simp add: exchange_code_def)
qed

lemma exchange_refreshToken_rotate_Issued:
  assumes "exchange_refreshToken_rotate cad s now g d old c = (Issued a r e, s')"
  shows "refreshTokens s' = filter (\<lambda>x. rt_oid x \<noteq> rt_oid d) (refreshTokens s) @
           [new_refreshToken now g (g_accessTokenId g)]"
  using assms
  by (auto simp: exchange_refreshToken_rotate_def remove_accessToken_def remove_refreshToken_def
      save_accessToken_def issue_refreshToken_def save_refreshToken_def new_accessToken_def
      Let_def split: sum.splits if_splits)

lemma exchange_refreshToken_Issued:
  assumes "exchange_refreshToken cad s now g client refreshToken scope = (Issued a r e, s')"
  shows "\<exists>d. findOne_refreshToken s now refreshToken = Some d \<and>
           refreshTokens s' = filter (\<lambda>x. rt_oid x \<noteq> rt_oid d) (refreshTokens s) @
             [new_refreshToken now g (g_accessTokenId g)]"
  using assms exchange_refreshToken_rotate_Issued
  by (auto simp: exchange_refreshToken_def split: option.splits if_splits)

lemma exchange_refreshToken_spent:
  assumes "distinct (map rt_value (refreshTokens s))"
    and "g_refreshTokenValue g \<noteq> refreshToken"
    and "exchange_refreshToken cad s now g client refreshToken scope = (Issued a r e, s')"
  shows "exchange_refreshToken cad' s' now' g' client' refreshToken scope' = (Rejected, s')"
proof -
  obtain d where found: "findOne_refreshToken s now refreshToken = Some d"
    and left: "refreshTokens s' = filter (\<lambda>x. rt_oid x \<noteq> rt_oid d) (refreshTokens s) @
             [new_refreshToken now g (g_accessTokenId g)]"
    using exchange_refreshToken_Issued [OF assms(3)] by blast
  have stored: "d \<in> set (refreshTokens s)" and v: "rt_value d = refreshToken"
    using findOne_refreshToken_stored [OF found] by simp_all
  have "findOne_refreshToken s' now' refreshToken = None"
    unfolding findOne_refreshToken_def
  proof (rule find_NoneI)
    fix x assume "x \<in> set (refreshTokens s')"
    then consider "x \<in> set (filter (\<lambda>x. rt_oid x \<noteq> rt_oid d) (refreshTokens s))"
      | "x = new_refreshToken now g (g_accessTokenId g)"
      unfolding left by auto
    then have "rt_value x \<noteq> refreshToken"
    proof cases
      case 1
      then have "rt_value x \<noteq> rt_value d"
        using distinct_values_removed [OF assms(1) stored] by blast
      then show ?thesis using v by simp
    next
      case 2
      then show ?thesis using assms(2) by (simp add: new_refreshToken_def)
    qed
    then show "\<not> (rt_value x = refreshToken \<and> now' < rt_expireAt x)"
      by simp
  qed
  then show ?thesis by (simp add: exchange_refreshToken_def)
qed

lemma exchange_code_overlapped_cases:
  "(\<exists>authCode c o1 s1 o2 s2.
       exchange_code_redeem cad s now g1 authCode c = (o1, s1) \<and>
       exchange_code_redeem cad s1 now g2 authCode c = (o2, s2) \<and>
       exchange_code_overlapped cad s now g1 g2 client code redirectUri = (o1, o2, s2)) \<or>
   exchange_code_overlapped cad s now g1 g2 client code redirectUri = (Rejected, Rejected, s) \<or>
   exchange_code_overlapped cad s now g1 g2 client code redirectUri = (Uncaught, Uncaught, s)"
proof (cases "findOne_authCode s now code")
  case None
  then show ?thesis by (simp add: exchange_code_overlapped_def)
next
  case (Some authCode)
  show ?thesis
  proof (cases "populate_client s (ac_clientId authCode)")
    case None
    with Some show ?thesis by (simp add: exchange_code_overlapped_def)
  next
    case c: (Some c)
    show ?thesis
    proof (cases "c_id client = c_id c \<and> redirectUri = ac_redirectUri authCode")
      case False
      with Some c show ?thesis by (auto simp: exchange_code_overlapped_def)
    next
      case True
      obtain o1 s1 where r1: "exchange_code_redeem cad s now g1 authCode c = (o1, s1)"
        by (cases "exchange_code_redeem cad s now g1 authCode c")
      obtain o2 s2 where r2: "exchange_code_redeem cad s1 now g2 authCode c = (o2, s2)"
        by (cases "exchange_code_redeem cad s1 now g2 authCode c")
      have "exchange_code_overlapped cad s now g1 g2 client code redirectUri = (o1, o2, s2)"
        using Some c True r1 r2 by (simp add: exchange_code_overlapped_def)
      with r1 r2 show ?thesis by blast
    qed
  qed
qed

lemma exchange_code_overlapped_second_Rejected:
  assumes "fst (snd (exchange_code_overlapped cad s now g1 g2 client code redirectUri)) = Rejected"
  shows "fst (exchange_code_overlapped cad s now g1 g2 client code redirectUri) = Rejected"
  using exchange_code_overlapped_cases [of cad s now g1 g2 client code redirectUri]
proof (elim disjE exE conjE)
  fix authCode c o1 s1 o2 s2
  assume r2: "exchange_code_redeem cad s1 now g2 authCode c = (o2, s2)"
    and all: "exchange_code_overlapped cad s now g1 g2 client code redirectUri = (o1, o2, s2)"
  have "o2 \<noteq> Rejected"
    using exchange_code_redeem_not_Rejected [of cad s1 now g2 authCode c] r2 by simp
  with assms all show ?thesis by simp
qed (use assms in simp_all)

lemma exchange_refreshToken_overlapped_cases:
  "(\<exists>d old c o1 s1 o2 s2.
       populate_accessToken s now (rt_accessTokenId d) = Some old \<and>
       exchange_refreshToken_rotate cad s now g1 d old c = (o1, s1) \<and>
       exchange_refreshToken_rotate cad s1 now g2 d old c = (o2, s2) \<and>
       exchange_refreshToken_overlapped cad s now g1 g2 client refreshToken = (o1, o2, s2)) \<or>
   exchange_refreshToken_overlapped cad s now g1 g2 client refreshToken = (Rejected, Rejected, s) \<or>
   exchange_refreshToken_overlapped cad s now g1 g2 client refreshToken = (Uncaught, Uncaught, s)"
proof (cases "findOne_refreshToken s now refreshToken")
  case None
  then show ?thesis by (simp add: exchange_refreshToken_overlapped_def)
next
  case (Some d)
  show ?thesis
  proof (cases "populate_accessToken s now (rt_accessTokenId d)")
    case None
    with Some show ?thesis by (simp add: exchange_refreshToken_overlapped_def)
  next
    case old: (Some old)
    show ?thesis
    proof (cases "populate_client s (at_clientId old)")
      case None
      with Some old show ?thesis by (simp add: exchange_refreshToken_overlapped_def)
    next
      case c: (Some c)
      show ?thesis
      proof (cases "c_id c = c_id client")
        case False
        with Some old c show ?thesis by (simp add: exchange_refreshToken_overlapped_def)
      next
        case True
        obtain o1 s1 where r1: "exchange_refreshToken_rotate cad s now g1 d old c = (o1, s1)"
          by (cases "exchange_refreshToken_rotate cad s now g1 d old c")
        obtain o2 s2 where r2: "exchange_refreshToken_rotate cad s1 now g2 d old c = (o2, s2)"
          by (cases "exchange_refreshToken_rotate cad s1 now g2 d old c")
        have "exchange_refreshToken_overlapped cad s now g1 g2 client refreshToken
                = (o1, o2, s2)"
          using Some old c True r1 r2 by (simp add: exchange_refreshToken_overlapped_def)
        with old r1 r2 show ?thesis by blast
      qed
    qed
  qed
qed

lemma exchange_refreshToken_overlapped_second_Rejected:
  assumes "fst (snd (exchange_refreshToken_overlapped cad s now g1 g2 client refreshToken))
             = Rejected"
  shows "fst (exchange_refreshToken_overlapped cad s now g1 g2 client refreshToken) = Rejected"
  using exchange_refreshToken_overlapped_cases [of s now cad g1 g2 client refreshToken]
proof (elim disjE exE conjE)
  fix d old c o1 s1 o2 s2
  assume r2: "exchange_refreshToken_rotate cad s1 now g2 d old c = (o2, s2)"
    and all: "exchange_refreshToken_overlapped cad s now g1 g2 client refreshToken
                = (o1, o2, s2)"
  have "o2 \<noteq> Rejected"
    using exchange_refreshToken_rotate_not_Rejected [of cad s1 now g2 d old c] r2 by simp
  with assms all show ?thesis by simp
qed (use assms in simp_all)

end
